theory Spec2Isabelle
  imports Main "HOL-Library.Word"
begin

section \<open>Data model\<close>

text \<open>
  The objects of \<^verbatim>\<open>controllers/perses/service_controller.go\<close>. A Go
  \<^verbatim>\<open>map[string]string\<close> is a partial function with an explicit nil
  (\<open>None\<close>): the builder distinguishes a nil map from an empty one. Go slices are
  lists; a nil slice and an empty slice are both \<open>[]\<close>.
\<close>

type_synonym go_map = "(string \<Rightarrow> string option) option"

text \<open>The keys and values a Go map holds; a nil map holds none.\<close>

definition entries :: "go_map \<Rightarrow> (string \<Rightarrow> string option)" where
  "entries m = (case m of None \<Rightarrow> Map.empty | Some f \<Rightarrow> f)"

text \<open>
  A Go \<^verbatim>\<open>error\<close>. The only classification the controller makes is
  \<^verbatim>\<open>apierrors.IsNotFound\<close>; the string is what \<^verbatim>\<open>%s\<close> prints.
\<close>

datatype error = NotFoundError string | OtherError string

fun IsNotFound :: "error \<Rightarrow> bool" where
  "IsNotFound (NotFoundError _) = True"
| "IsNotFound (OtherError _) = False"

fun error_string :: "error \<Rightarrow> string" where
  "error_string (NotFoundError s) = s"
| "error_string (OtherError s) = s"

record ownerReference =
  or_apiVersion :: string
  or_kind :: string
  or_name :: string
  or_uid :: string
  or_controller :: "bool option"
  or_blockOwnerDeletion :: "bool option"

text \<open>
  \<^verbatim>\<open>metav1.ObjectMeta\<close>: the fields the builder sets, and the identity and
  version fields the API server owns.
\<close>

record objectMeta =
  Name :: string
  Namespace :: string
  UID :: string
  ResourceVersion :: string
  Annotations :: go_map
  Labels :: go_map
  OwnerReferences :: "ownerReference list"

datatype protocol = ProtocolTCP | ProtocolUDP | ProtocolSCTP

datatype intOrString = IntVal "32 word" | StrVal string

definition FromInt32 :: "32 word \<Rightarrow> intOrString" where
  "FromInt32 v = IntVal v"

record servicePort =
  port_Name :: string
  port_Port :: "32 word"
  port_Protocol :: protocol
  port_TargetPort :: intOrString

text \<open>\<^verbatim>\<open>corev1.ServiceType\<close>; the zero value of the Go string type is \<open>ServiceTypeUnset\<close>.\<close>

datatype serviceType =
  ServiceTypeUnset
  | ServiceTypeClusterIP
  | ServiceTypeNodePort
  | ServiceTypeLoadBalancer
  | ServiceTypeExternalName

text \<open>
  \<^verbatim>\<open>corev1.ServiceSpec\<close>: the three fields the builder sets, and two of the
  fields the API server defaults (\<open>ClusterIP\<close>, \<open>SessionAffinity\<close>), which the
  builder leaves at their zero value.
\<close>

record serviceSpec =
  spec_Type :: serviceType
  spec_Ports :: "servicePort list"
  spec_Selector :: go_map
  spec_ClusterIP :: string
  spec_SessionAffinity :: string

record service =
  svc_ObjectMeta :: objectMeta
  svc_Spec :: serviceSpec

text \<open>\<^verbatim>\<open>v1alpha1.Metadata\<close>, reached through the pointer \<^verbatim>\<open>perses.Spec.Metadata\<close>.\<close>

record metadata =
  md_Labels :: go_map
  md_Annotations :: go_map

record persesSpec =
  ps_Metadata :: "metadata option"
  ps_Image :: string

datatype conditionStatus = ConditionTrue | ConditionFalse | ConditionUnknown

record condition =
  cond_Type :: string
  cond_Status :: conditionStatus
  cond_Reason :: string
  cond_Message :: string

record persesStatus =
  Conditions :: "condition list"

record perses =
  p_ObjectMeta :: objectMeta
  p_Spec :: persesSpec
  p_Status :: persesStatus

text \<open>The zero values Go gives a freshly allocated object.\<close>

definition zero_objectMeta :: objectMeta where
  "zero_objectMeta =
     \<lparr>Name = [], Namespace = [], UID = [], ResourceVersion = [],
      Annotations = None, Labels = None, OwnerReferences = []\<rparr>"

definition zero_perses :: perses where
  "zero_perses =
     \<lparr>p_ObjectMeta = zero_objectMeta,
      p_Spec = \<lparr>ps_Metadata = None, ps_Image = []\<rparr>,
      p_Status = \<lparr>Conditions = []\<rparr>\<rparr>"

section \<open>Collaborators of the reconciler\<close>

text \<open>
  \<^verbatim>\<open>r.Scheme\<close> answers one question here: the API version and kind registered
  for the Perses type, if any.
\<close>

type_synonym scheme = "(string \<times> string) option"

text \<open>
  Modelled from the spec: \<^verbatim>\<open>ctrl.SetControllerReference\<close> is not under src/.
  The spec says it establishes the ownership link from child to parent using the parent's
  type metadata and identity, and fails when the parent's type is not registered in the
  scheme. The reference it adds is the controller reference: both flags set.
\<close>

definition controllerRef :: "perses \<Rightarrow> string \<times> string \<Rightarrow> ownerReference" where
  "controllerRef owner gvk =
     \<lparr>or_apiVersion = fst gvk, or_kind = snd gvk,
      or_name = Name (p_ObjectMeta owner), or_uid = UID (p_ObjectMeta owner),
      or_controller = Some True, or_blockOwnerDeletion = Some True\<rparr>"

definition SetControllerReference :: "perses \<Rightarrow> service \<Rightarrow> scheme \<Rightarrow> error + service" where
  "SetControllerReference owner controlled sch =
     (case sch of
        None \<Rightarrow> Inl (OtherError ''no kind is registered for the type v1alpha1.Perses'')
      | Some gvk \<Rightarrow>
          Inr (controlled\<lparr>svc_ObjectMeta :=
                 (svc_ObjectMeta controlled)\<lparr>OwnerReferences :=
                    OwnerReferences (svc_ObjectMeta controlled) @ [controllerRef owner gvk]\<rparr>\<rparr>))"

text \<open>
  Modelled from the spec: \<^verbatim>\<open>meta.SetStatusCondition\<close> is not under src/. The
  spec says a condition is appended or updated on the parent's status: the first condition
  of the same type takes the new status, reason and message, and a condition of a new type
  is appended. Timestamps are left out.
\<close>

fun SetStatusCondition :: "condition list \<Rightarrow> condition \<Rightarrow> condition list" where
  "SetStatusCondition [] newCondition = [newCondition]"
| "SetStatusCondition (c # cs) newCondition =
     (if cond_Type c = cond_Type newCondition
      then c\<lparr>cond_Status := cond_Status newCondition,
             cond_Reason := cond_Reason newCondition,
             cond_Message := cond_Message newCondition\<rparr> # cs
      else c # SetStatusCondition cs newCondition)"

text \<open>
  Modelled from the spec: the constant \<^verbatim>\<open>common.TypeAvailablePerses\<close> is not
  under src/; the spec gives the condition type as "Available".
\<close>

definition TypeAvailablePerses :: string where
  "TypeAvailablePerses = ''Available''"

text \<open>
  Modelled from the spec: the package \<^verbatim>\<open>internal/subreconciler\<close> is not under
  src/. The spec gives the signals an invocation returns: continue, halt, requeue and
  requeue-with-error; every signal but continue stops the invocation.
\<close>

datatype signal = ContinueReconciling | DoNotRequeue | Requeue | RequeueWithError error

definition ShouldHaltOrRequeue :: "signal \<Rightarrow> bool" where
  "ShouldHaltOrRequeue s = (s \<noteq> ContinueReconciling)"

text \<open>
  The API server behind \<^verbatim>\<open>client.Client\<close>. It is outside the repository, so its
  answers are parameters: the failure of a read (if any), and what admission makes of a
  submitted object: an error, or the object with the server-owned fields filled in. An
  update is admitted against the stored object; the flag is \<^verbatim>\<open>client.DryRunAll\<close>.
\<close>

type_synonym namespacedName = "string \<times> string"

record apiserver =
  getPersesFault :: "namespacedName \<Rightarrow> error option"
  getServiceFault :: "namespacedName \<Rightarrow> error option"
  admitCreate :: "service \<Rightarrow> error + service"
  admitUpdate :: "bool \<Rightarrow> service \<Rightarrow> service \<Rightarrow> error + service"
  statusUpdateFault :: "perses \<Rightarrow> error option"

text \<open>
  The reconciler \<^verbatim>\<open>r\<close>: its client, its configured image, its scheme, and the
  labelling collaborator \<^verbatim>\<open>common.LabelsForPerses\<close>, which is not under src/ and
  is taken as a parameter.
\<close>

record reconciler =
  Client :: apiserver
  PersesImage :: string
  Scheme :: scheme
  LabelsForPerses :: "string \<Rightarrow> string \<Rightarrow> perses \<Rightarrow> error + go_map"

section \<open>createPersesService\<close>

definition createPersesService :: "reconciler \<Rightarrow> perses \<Rightarrow> error + service" where
  "createPersesService r perses =
     (case LabelsForPerses r (PersesImage r) (Name (p_ObjectMeta perses)) perses of
        Inl err \<Rightarrow> Inl err
      | Inr ls \<Rightarrow>
          (let annotations =
                 (case ps_Metadata (p_Spec perses) of
                    None \<Rightarrow> Some Map.empty
                  | Some md \<Rightarrow>
                      (case md_Annotations md of
                         None \<Rightarrow> Some Map.empty
                       | Some a \<Rightarrow> Some a));
               ser =
                 \<lparr>svc_ObjectMeta =
                    zero_objectMeta\<lparr>Name := Name (p_ObjectMeta perses),
                                    Namespace := Namespace (p_ObjectMeta perses),
                                    Annotations := annotations,
                                    Labels := ls\<rparr>,
                  svc_Spec =
                    \<lparr>spec_Type = ServiceTypeClusterIP,
                     spec_Ports =
                       [\<lparr>port_Name = ''http'', port_Port = 8080,
                         port_Protocol = ProtocolTCP, port_TargetPort = FromInt32 8080\<rparr>],
                     spec_Selector = ls,
                     spec_ClusterIP = [],
                     spec_SessionAffinity = []\<rparr>\<rparr>
           in (case SetControllerReference perses ser (Scheme r) of
                 Inl err \<Rightarrow> Inl err
               | Inr ser' \<Rightarrow> Inr ser')))"

section \<open>The cluster and the client calls\<close>

text \<open>
  The state an invocation runs against: the stored objects, keyed by namespace and name,
  and, in order, every API call made and every log line written.
\<close>

datatype call =
  GetPersesCall namespacedName
  | GetServiceCall namespacedName
  | CreateCall service
  | UpdateCall service bool
  | StatusUpdateCall perses

datatype logger = Logger_log | Logger_slog

datatype level = InfoLevel | ErrorLevel

datatype logline = LogLine logger level string "error option"

record world =
  persesObjects :: "namespacedName \<Rightarrow> perses option"
  services :: "namespacedName \<Rightarrow> service option"
  calls :: "call list"
  logs :: "logline list"

definition record_call :: "call \<Rightarrow> world \<Rightarrow> world" where
  "record_call c w = w\<lparr>calls := calls w @ [c]\<rparr>"

definition write_log :: "logline \<Rightarrow> world \<Rightarrow> world" where
  "write_log l w = w\<lparr>logs := logs w @ [l]\<rparr>"

definition service_key :: "service \<Rightarrow> namespacedName" where
  "service_key s = (Namespace (svc_ObjectMeta s), Name (svc_ObjectMeta s))"

definition perses_key :: "perses \<Rightarrow> namespacedName" where
  "perses_key p = (Namespace (p_ObjectMeta p), Name (p_ObjectMeta p))"

definition client_GetPerses ::
  "reconciler \<Rightarrow> namespacedName \<Rightarrow> world \<Rightarrow> (error + perses) \<times> world" where
  "client_GetPerses r key w =
     (let w1 = record_call (GetPersesCall key) w in
      case getPersesFault (Client r) key of
        Some err \<Rightarrow> (Inl err, w1)
      | None \<Rightarrow>
          (case persesObjects w key of
             None \<Rightarrow> (Inl (NotFoundError ''perses not found''), w1)
           | Some p \<Rightarrow> (Inr p, w1)))"

definition client_Get ::
  "reconciler \<Rightarrow> namespacedName \<Rightarrow> world \<Rightarrow> (error + service) \<times> world" where
  "client_Get r key w =
     (let w1 = record_call (GetServiceCall key) w in
      case getServiceFault (Client r) key of
        Some err \<Rightarrow> (Inl err, w1)
      | None \<Rightarrow>
          (case services w key of
             None \<Rightarrow> (Inl (NotFoundError ''service not found''), w1)
           | Some s \<Rightarrow> (Inr s, w1)))"

definition client_Create :: "reconciler \<Rightarrow> service \<Rightarrow> world \<Rightarrow> error option \<times> world" where
  "client_Create r ser w =
     (let w1 = record_call (CreateCall ser) w in
      case services w (service_key ser) of
        Some existing \<Rightarrow> (Some (OtherError ''service already exists''), w1)
      | None \<Rightarrow>
          (case admitCreate (Client r) ser of
             Inl err \<Rightarrow> (Some err, w1)
           | Inr stored \<Rightarrow>
               (None, w1\<lparr>services := (services w1)(service_key ser \<mapsto> stored)\<rparr>)))"

text \<open>
  An update answers with the admitted object, which the client writes back into the
  caller's \<^verbatim>\<open>svc\<close>; a dry run stores nothing.
\<close>

definition client_Update ::
  "reconciler \<Rightarrow> service \<Rightarrow> bool \<Rightarrow> world \<Rightarrow> (error + service) \<times> world" where
  "client_Update r svc dryRun w =
     (let w1 = record_call (UpdateCall svc dryRun) w in
      case services w (service_key svc) of
        None \<Rightarrow> (Inl (NotFoundError ''service not found''), w1)
      | Some old \<Rightarrow>
          (case admitUpdate (Client r) dryRun old svc of
             Inl err \<Rightarrow> (Inl err, w1)
           | Inr admitted \<Rightarrow>
               (Inr admitted,
                if dryRun then w1
                else w1\<lparr>services := (services w1)(service_key svc \<mapsto> admitted)\<rparr>)))"

text \<open>A status update stores the status of the submitted parent and nothing else of it.\<close>

definition status_Update :: "reconciler \<Rightarrow> perses \<Rightarrow> world \<Rightarrow> error option \<times> world" where
  "status_Update r p w =
     (let w1 = record_call (StatusUpdateCall p) w in
      case statusUpdateFault (Client r) p of
        Some err \<Rightarrow> (Some err, w1)
      | None \<Rightarrow>
          (case persesObjects w (perses_key p) of
             None \<Rightarrow> (Some (NotFoundError ''perses not found''), w1)
           | Some old \<Rightarrow>
               (None,
                w1\<lparr>persesObjects :=
                     (persesObjects w1)(perses_key p \<mapsto> old\<lparr>p_Status := p_Status p\<rparr>)\<rparr>)))"

text \<open>
  Modelled from the spec: \<^verbatim>\<open>getLatestPerses\<close> is not under src/. The spec says it
  fetches the latest parent by reference and signals a halt when the parent is not found
  or the fetch fails; the caller's \<^verbatim>\<open>perses\<close> then stays the zero object.
\<close>

definition getLatestPerses ::
  "reconciler \<Rightarrow> namespacedName \<Rightarrow> world \<Rightarrow> signal \<times> perses \<times> world" where
  "getLatestPerses r req w =
     (case client_GetPerses r req w of
        (Inl err, w1) \<Rightarrow>
          (if IsNotFound err then DoNotRequeue else RequeueWithError err, zero_perses, w1)
      | (Inr p, w1) \<Rightarrow> (ContinueReconciling, p, w1))"

text \<open>
  \<^verbatim>\<open>equality.Semantic.DeepEqual\<close> on two Services: every field is compared, and a
  nil map equals an empty one.
\<close>

definition DeepEqual_objectMeta :: "objectMeta \<Rightarrow> objectMeta \<Rightarrow> bool" where
  "DeepEqual_objectMeta a b =
     (Name a = Name b \<and> Namespace a = Namespace b \<and> UID a = UID b
      \<and> ResourceVersion a = ResourceVersion b
      \<and> entries (Annotations a) = entries (Annotations b)
      \<and> entries (Labels a) = entries (Labels b)
      \<and> OwnerReferences a = OwnerReferences b)"

definition DeepEqual_serviceSpec :: "serviceSpec \<Rightarrow> serviceSpec \<Rightarrow> bool" where
  "DeepEqual_serviceSpec a b =
     (spec_Type a = spec_Type b \<and> spec_Ports a = spec_Ports b
      \<and> entries (spec_Selector a) = entries (spec_Selector b)
      \<and> spec_ClusterIP a = spec_ClusterIP b
      \<and> spec_SessionAffinity a = spec_SessionAffinity b)"

definition DeepEqual :: "service \<Rightarrow> service \<Rightarrow> bool" where
  "DeepEqual a b =
     (DeepEqual_objectMeta (svc_ObjectMeta a) (svc_ObjectMeta b)
      \<and> DeepEqual_serviceSpec (svc_Spec a) (svc_Spec b))"

section \<open>reconcileService\<close>

definition build_failure_message :: "string \<Rightarrow> error \<Rightarrow> string" where
  "build_failure_message name err2 =
     ''Failed to create Service for the custom resource ('' @ name @ ''): (''
       @ error_string err2 @ '')''"

definition service_location :: "service \<Rightarrow> string" where
  "service_location ser =
     ''Service.Namespace '' @ Namespace (svc_ObjectMeta ser)
       @ '' Service.Name '' @ Name (svc_ObjectMeta ser)"

definition reconcileService :: "reconciler \<Rightarrow> namespacedName \<Rightarrow> world \<Rightarrow> signal \<times> world" where
  "reconcileService r req w0 =
     (case getLatestPerses r req w0 of (result, perses, w1) \<Rightarrow>
      if ShouldHaltOrRequeue result then (result, w1)
      else
        (case client_Get r (perses_key perses) w1 of
           (Inl err, w2) \<Rightarrow>
             if \<not> IsNotFound err
             then (RequeueWithError err,
                   write_log (LogLine Logger_log ErrorLevel ''Failed to get Service'' (Some err)) w2)
             else
               (case createPersesService r perses of
                  Inl err2 \<Rightarrow>
                    (let w3 = write_log (LogLine Logger_slog ErrorLevel
                                ''Failed to define new Service resource for perses'' (Some err2)) w2;
                         perses' = perses\<lparr>p_Status := (p_Status perses)\<lparr>Conditions :=
                           SetStatusCondition (Conditions (p_Status perses))
                             \<lparr>cond_Type = TypeAvailablePerses, cond_Status = ConditionFalse,
                              cond_Reason = ''Reconciling'',
                              cond_Message =
                                build_failure_message (Name (p_ObjectMeta perses)) err2\<rparr>\<rparr>\<rparr>
                     in (case status_Update r perses' w3 of
                           (Some err', w4) \<Rightarrow>
                             (RequeueWithError err',
                              write_log (LogLine Logger_slog ErrorLevel
                                (error_string err' @ ''Failed to update perses status'') None) w4)
                         | (None, w4) \<Rightarrow> (RequeueWithError err2, w4)))
                | Inr ser \<Rightarrow>
                    (let w3 = write_log (LogLine Logger_slog InfoLevel
                                (''Creating a new Service: '' @ service_location ser) None) w2
                     in (case client_Create r ser w3 of
                           (Some err', w4) \<Rightarrow>
                             (RequeueWithError err',
                              write_log (LogLine Logger_slog ErrorLevel
                                (''Failed to create new Service: '' @ service_location ser)
                                (Some err')) w4)
                         | (None, w4) \<Rightarrow> (ContinueReconciling, w4))))
         | (Inr found, w2) \<Rightarrow>
             (case createPersesService r perses of
                Inl err \<Rightarrow>
                  (RequeueWithError err,
                   write_log (LogLine Logger_slog ErrorLevel
                     ''Failed to define new Service resource for perses'' (Some err)) w2)
              | Inr svc \<Rightarrow>
                  (case client_Update r svc True w2 of
                     (Inl err, w3) \<Rightarrow>
                       (RequeueWithError err,
                        write_log (LogLine Logger_slog ErrorLevel
                          (error_string err @ ''Failed to update Service with dry run'') None) w3)
                   | (Inr svc', w3) \<Rightarrow>
                       if \<not> DeepEqual found svc'
                       then
                         (case client_Update r svc' False w3 of
                            (Inl err, w4) \<Rightarrow>
                              (RequeueWithError err,
                               write_log (LogLine Logger_slog ErrorLevel
                                 (error_string err @ ''Failed to update Service'') None) w4)
                          | (Inr svc'', w4) \<Rightarrow> (ContinueReconciling, w4))
                       else (ContinueReconciling, w3)))))"

section \<open>Observing an invocation\<close>

text \<open>The calls an invocation added to the record, given the state before and after it.\<close>

definition new_calls :: "world \<Rightarrow> world \<Rightarrow> call list" where
  "new_calls w w' = drop (length (calls w)) (calls w')"

text \<open>
  The calls that change the cluster: a create, an update that is not a dry run, and a
  status update.
\<close>

fun persisting_write :: "call \<Rightarrow> bool" where
  "persisting_write (GetPersesCall key) = False"
| "persisting_write (GetServiceCall key) = False"
| "persisting_write (CreateCall s) = True"
| "persisting_write (UpdateCall s dryRun) = (\<not> dryRun)"
| "persisting_write (StatusUpdateCall p) = True"

text \<open>The first condition of a given type, which is how a list of conditions is read.\<close>

fun FindStatusCondition :: "condition list \<Rightarrow> string \<Rightarrow> condition option" where
  "FindStatusCondition [] conditionType = None"
| "FindStatusCondition (c # cs) conditionType =
     (if cond_Type c = conditionType then Some c else FindStatusCondition cs conditionType)"

section \<open>Assumptions on the API server\<close>

text \<open>
  The object the caller holds after a dry run is the server's answer. A server keeps the
  identity of what it is sent when that answer has the submitted name, namespace and owner
  references.
\<close>

definition keeps_identity :: "apiserver \<Rightarrow> bool" where
  "keeps_identity srv =
     (\<forall>old s n. admitUpdate srv True old s = Inr n \<longrightarrow>
        Name (svc_ObjectMeta n) = Name (svc_ObjectMeta s)
        \<and> Namespace (svc_ObjectMeta n) = Namespace (svc_ObjectMeta s)
        \<and> OwnerReferences (svc_ObjectMeta n) = OwnerReferences (svc_ObjectMeta s))"


section \<open>An example cluster\<close>

text \<open>
  A parent \<open>sample\<close> in namespace \<open>default\<close>, a server that fills in the UID, the
  resource version, the cluster IP and the session affinity, and reconcilers around it:
  one whose reads of the Service fail, one whose labelling fails, and one whose
  labelling and status update both fail.
\<close>

definition demo_labels :: "string \<Rightarrow> go_map" where
  "demo_labels name = Some [''app.kubernetes.io/instance'' \<mapsto> name]"

definition demo_server :: apiserver where
  "demo_server =
     \<lparr>getPersesFault = (\<lambda>key. None),
      getServiceFault = (\<lambda>key. None),
      admitCreate = (\<lambda>s. Inr (s\<lparr>svc_ObjectMeta := (svc_ObjectMeta s)\<lparr>UID := ''svc-uid'', ResourceVersion := ''1''\<rparr>,
                               svc_Spec := (svc_Spec s)\<lparr>spec_ClusterIP := ''10.0.0.7'', spec_SessionAffinity := ''None''\<rparr>\<rparr>)),
      admitUpdate = (\<lambda>dryRun old s.
         Inr (s\<lparr>svc_ObjectMeta := (svc_ObjectMeta s)\<lparr>UID := UID (svc_ObjectMeta old),
                                                     ResourceVersion := ResourceVersion (svc_ObjectMeta old)\<rparr>,
                svc_Spec := (svc_Spec s)\<lparr>spec_ClusterIP := spec_ClusterIP (svc_Spec old),
                                         spec_SessionAffinity := ''None''\<rparr>\<rparr>)),
      statusUpdateFault = (\<lambda>p. None)\<rparr>"

definition demo_reconciler :: reconciler where
  "demo_reconciler =
     \<lparr>Client = demo_server, PersesImage = ''perses:latest'',
      Scheme = Some (''perses.dev/v1alpha1'', ''Perses''),
      LabelsForPerses = (\<lambda>image name p. Inr (demo_labels name))\<rparr>"

definition demo_perses :: perses where
  "demo_perses =
     \<lparr>p_ObjectMeta = zero_objectMeta\<lparr>Name := ''sample'', Namespace := ''default'', UID := ''p-uid''\<rparr>,
      p_Spec = \<lparr>ps_Metadata = Some \<lparr>md_Labels = None, md_Annotations = Some [''team'' \<mapsto> ''obs'']\<rparr>,
                ps_Image = ''perses:latest''\<rparr>,
      p_Status = \<lparr>Conditions = []\<rparr>\<rparr>"

definition bare_perses :: perses where
  "bare_perses = demo_perses\<lparr>p_Spec := \<lparr>ps_Metadata = None, ps_Image = ''perses:latest''\<rparr>\<rparr>"

definition demo_service :: service where
  "demo_service =
     \<lparr>svc_ObjectMeta =
        \<lparr>Name = ''sample'', Namespace = ''default'', UID = [], ResourceVersion = [],
         Annotations = Some [''team'' \<mapsto> ''obs''], Labels = demo_labels ''sample'',
         OwnerReferences =
           [\<lparr>or_apiVersion = ''perses.dev/v1alpha1'', or_kind = ''Perses'', or_name = ''sample'',
             or_uid = ''p-uid'', or_controller = Some True, or_blockOwnerDeletion = Some True\<rparr>]\<rparr>,
      svc_Spec =
        \<lparr>spec_Type = ServiceTypeClusterIP,
         spec_Ports = [\<lparr>port_Name = ''http'', port_Port = 8080, port_Protocol = ProtocolTCP,
                        port_TargetPort = IntVal 8080\<rparr>],
         spec_Selector = demo_labels ''sample'', spec_ClusterIP = [], spec_SessionAffinity = []\<rparr>\<rparr>"

definition bare_service :: service where
  "bare_service = demo_service\<lparr>svc_ObjectMeta := (svc_ObjectMeta demo_service)\<lparr>Annotations := Some Map.empty\<rparr>\<rparr>"

definition stored_service :: service where
  "stored_service =
     demo_service\<lparr>svc_ObjectMeta := (svc_ObjectMeta demo_service)\<lparr>UID := ''svc-uid'', ResourceVersion := ''1''\<rparr>,
                  svc_Spec := (svc_Spec demo_service)\<lparr>spec_ClusterIP := ''10.0.0.7'', spec_SessionAffinity := ''None''\<rparr>\<rparr>"

definition drifted_service :: service where
  "drifted_service =
     stored_service\<lparr>svc_ObjectMeta := (svc_ObjectMeta stored_service)\<lparr>Labels := demo_labels ''old''\<rparr>\<rparr>"

definition demo_key :: namespacedName where
  "demo_key = (''default'', ''sample'')"

definition demo_world :: world where
  "demo_world = \<lparr>persesObjects = [demo_key \<mapsto> demo_perses], services = Map.empty,
                  calls = [], logs = []\<rparr>"

definition settled_world :: world where
  "settled_world = demo_world\<lparr>services := [demo_key \<mapsto> stored_service]\<rparr>"

definition drifted_world :: world where
  "drifted_world = demo_world\<lparr>services := [demo_key \<mapsto> drifted_service]\<rparr>"

definition unreachable_reconciler :: reconciler where
  "unreachable_reconciler =
     demo_reconciler\<lparr>Client := demo_server\<lparr>getServiceFault :=
        (\<lambda>key. Some (OtherError ''connection refused''))\<rparr>\<rparr>"

definition unlabelled_reconciler :: reconciler where
  "unlabelled_reconciler =
     demo_reconciler\<lparr>LabelsForPerses := (\<lambda>image name p. Inl (OtherError ''invalid image''))\<rparr>"

definition conflicting_reconciler :: reconciler where
  "conflicting_reconciler =
     unlabelled_reconciler\<lparr>Client := demo_server\<lparr>statusUpdateFault :=
        (\<lambda>p. Some (OtherError ''conflict''))\<rparr>\<rparr>"



definition stripping_server :: apiserver where
  "stripping_server =
     demo_server\<lparr>admitUpdate := (\<lambda>dryRun old s.
        Inr (s\<lparr>svc_ObjectMeta := (svc_ObjectMeta s)\<lparr>OwnerReferences := []\<rparr>\<rparr>))\<rparr>"

definition stripping_reconciler :: reconciler where
  "stripping_reconciler = demo_reconciler\<lparr>Client := stripping_server\<rparr>"

definition unowned_service :: service where
  "unowned_service =
     demo_service\<lparr>svc_ObjectMeta := (svc_ObjectMeta demo_service)\<lparr>OwnerReferences := []\<rparr>\<rparr>"

section \<open>What the client calls change\<close>

lemma getLatestPerses_world:
  "getLatestPerses r req w = (s, p, w1) \<Longrightarrow> w1 = record_call (GetPersesCall req) w"
  by (auto simp: getLatestPerses_def client_GetPerses_def Let_def split: option.splits if_splits)

lemma getLatestPerses_Continue:
  "getLatestPerses r req w = (ContinueReconciling, p, w1) \<longleftrightarrow>
     getPersesFault (Client r) req = None \<and> persesObjects w req = Some p
     \<and> w1 = record_call (GetPersesCall req) w"
  by (auto simp: getLatestPerses_def client_GetPerses_def Let_def split: option.splits)

lemma client_Get_world:
  "client_Get r key w = (res, w') \<Longrightarrow> w' = record_call (GetServiceCall key) w"
  by (auto simp: client_Get_def Let_def split: option.splits)

lemma client_Get_found:
  "client_Get r key w = (Inr s, w') \<longleftrightarrow>
     getServiceFault (Client r) key = None \<and> services w key = Some s
     \<and> w' = record_call (GetServiceCall key) w"
  by (auto simp: client_Get_def Let_def split: option.splits)


lemma reads_so_far:
  assumes "getLatestPerses r req w = (s, p, w1)"
      and "client_Get r key w1 = (res, w2)"
  shows "calls w2 = calls w @ [GetPersesCall req, GetServiceCall key]"
    and "services w2 = services w" and "persesObjects w2 = persesObjects w"
    and "logs w2 = logs w"
  using getLatestPerses_world[OF assms(1)] client_Get_world[OF assms(2)]
  by (simp_all add: record_call_def)

lemma client_Create_world:
  "client_Create r ser w = (res, w') \<Longrightarrow>
   calls w' = calls w @ [CreateCall ser] \<and> logs w' = logs w \<and> persesObjects w' = persesObjects w"
  by (auto simp: client_Create_def record_call_def Let_def split: option.splits sum.splits)

lemma client_Create_success:
  "client_Create r ser w = (None, w') \<Longrightarrow>
   services w (service_key ser) = None
   \<and> (\<exists>stored. admitCreate (Client r) ser = Inr stored
         \<and> services w' = (services w)(service_key ser \<mapsto> stored))"
  by (auto simp: client_Create_def record_call_def Let_def split: option.splits sum.splits)

lemma client_Create_failure:
  "client_Create r ser w = (Some e, w') \<Longrightarrow> services w' = services w"
  by (auto simp: client_Create_def record_call_def Let_def split: option.splits sum.splits)

lemma client_Update_world:
  "client_Update r svc dryRun w = (res, w') \<Longrightarrow>
   calls w' = calls w @ [UpdateCall svc dryRun] \<and> logs w' = logs w
   \<and> persesObjects w' = persesObjects w"
  by (auto simp: client_Update_def record_call_def Let_def split: option.splits sum.splits)

lemma client_Update_dry_run:
  "client_Update r svc True w = (res, w') \<Longrightarrow> services w' = services w"
  by (auto simp: client_Update_def record_call_def Let_def split: option.splits sum.splits)

lemma client_Update_success:
  "client_Update r svc dryRun w = (Inr n, w') \<Longrightarrow>
   \<exists>old. services w (service_key svc) = Some old \<and> admitUpdate (Client r) dryRun old svc = Inr n
     \<and> services w' = (if dryRun then services w else (services w)(service_key svc \<mapsto> n))"
  by (auto simp: client_Update_def record_call_def Let_def split: option.splits sum.splits)

lemma client_Update_failure:
  "client_Update r svc dryRun w = (Inl e, w') \<Longrightarrow> services w' = services w"
  by (auto simp: client_Update_def record_call_def Let_def split: option.splits sum.splits)

lemma status_Update_world:
  "status_Update r p w = (res, w') \<Longrightarrow>
   calls w' = calls w @ [StatusUpdateCall p] \<and> logs w' = logs w \<and> services w' = services w"
  by (auto simp: status_Update_def record_call_def Let_def split: option.splits)

lemma status_Update_success:
  "status_Update r p w = (None, w') \<Longrightarrow>
   \<exists>old. persesObjects w (perses_key p) = Some old
     \<and> persesObjects w' = (persesObjects w)(perses_key p \<mapsto> old\<lparr>p_Status := p_Status p\<rparr>)"
  by (auto simp: status_Update_def record_call_def Let_def split: option.splits)

lemma status_Update_failure:
  "status_Update r p w = (Some e, w') \<Longrightarrow> persesObjects w' = persesObjects w"
  by (auto simp: status_Update_def record_call_def Let_def split: option.splits)

section \<open>The builder, the conditions and the comparison\<close>

lemma createPersesService_shape:
  assumes "createPersesService r p = Inr ser"
  obtains ls gvk where
    "LabelsForPerses r (PersesImage r) (Name (p_ObjectMeta p)) p = Inr ls"
    "Scheme r = Some gvk"
    "Name (svc_ObjectMeta ser) = Name (p_ObjectMeta p)"
    "Namespace (svc_ObjectMeta ser) = Namespace (p_ObjectMeta p)"
    "Labels (svc_ObjectMeta ser) = ls"
    "OwnerReferences (svc_ObjectMeta ser) = [controllerRef p gvk]"
    "spec_Selector (svc_Spec ser) = ls"
    "spec_Ports (svc_Spec ser) =
       [\<lparr>port_Name = ''http'', port_Port = 8080, port_Protocol = ProtocolTCP,
         port_TargetPort = IntVal 8080\<rparr>]"
  using assms
  by (auto simp: createPersesService_def SetControllerReference_def Let_def zero_objectMeta_def
      FromInt32_def split: sum.splits option.splits)

lemma createPersesService_Client:
  "createPersesService (r\<lparr>Client := c\<rparr>) p = createPersesService r p"
  by (simp add: createPersesService_def Let_def split: sum.splits)

lemma service_key_built:
  "createPersesService r p = Inr ser \<Longrightarrow> service_key ser = perses_key p"
  by (erule createPersesService_shape) (simp add: service_key_def perses_key_def)

lemma unlabelled_build:
  "LabelsForPerses r = (\<lambda>image name p. Inl e) \<Longrightarrow> createPersesService r p = Inl e"
  by (simp add: createPersesService_def)

lemma FindStatusCondition_SetStatusCondition:
  "FindStatusCondition (SetStatusCondition cs c) (cond_Type c) = Some c"
  by (induction cs) auto

lemma DeepEqual_refl: "DeepEqual s s"
  by (simp add: DeepEqual_def DeepEqual_objectMeta_def DeepEqual_serviceSpec_def)

section \<open>The branches of reconcileService\<close>

lemma reconcileService_read_failure:
  assumes "getLatestPerses r req w = (ContinueReconciling, p, w1)"
      and "client_Get r (perses_key p) w1 = (Inl err, w2)"
      and "\<not> IsNotFound err"
  shows "reconcileService r req w =
           (RequeueWithError err,
            write_log (LogLine Logger_log ErrorLevel ''Failed to get Service'' (Some err)) w2)"
  using assms by (simp add: reconcileService_def ShouldHaltOrRequeue_def)

lemma reconcileService_create_build_failure:
  assumes "getLatestPerses r req w = (ContinueReconciling, p, w1)"
      and "client_Get r (perses_key p) w1 = (Inl err, w2)"
      and "IsNotFound err"
      and "createPersesService r p = Inl err2"
      and "p' = p\<lparr>p_Status := (p_Status p)\<lparr>Conditions :=
                   SetStatusCondition (Conditions (p_Status p))
                     \<lparr>cond_Type = TypeAvailablePerses, cond_Status = ConditionFalse,
                      cond_Reason = ''Reconciling'',
                      cond_Message = build_failure_message (Name (p_ObjectMeta p)) err2\<rparr>\<rparr>\<rparr>"
      and "w3 = write_log (LogLine Logger_slog ErrorLevel
                  ''Failed to define new Service resource for perses'' (Some err2)) w2"
  shows "reconcileService r req w =
           (case status_Update r p' w3 of
              (Some err', w4) \<Rightarrow>
                (RequeueWithError err',
                 write_log (LogLine Logger_slog ErrorLevel
                   (error_string err' @ ''Failed to update perses status'') None) w4)
            | (None, w4) \<Rightarrow> (RequeueWithError err2, w4))"
  using assms by (simp add: reconcileService_def ShouldHaltOrRequeue_def Let_def)

lemma reconcileService_create_branch:
  assumes "getLatestPerses r req w = (ContinueReconciling, p, w1)"
      and "client_Get r (perses_key p) w1 = (Inl err, w2)"
      and "IsNotFound err"
      and "createPersesService r p = Inr ser"
      and "w3 = write_log (LogLine Logger_slog InfoLevel
                  (''Creating a new Service: '' @ service_location ser) None) w2"
  shows "reconcileService r req w =
           (case client_Create r ser w3 of
              (Some err', w4) \<Rightarrow>
                (RequeueWithError err',
                 write_log (LogLine Logger_slog ErrorLevel
                   (''Failed to create new Service: '' @ service_location ser) (Some err')) w4)
            | (None, w4) \<Rightarrow> (ContinueReconciling, w4))"
  using assms by (simp add: reconcileService_def ShouldHaltOrRequeue_def Let_def)

lemma reconcileService_update_build_failure:
  assumes "getLatestPerses r req w = (ContinueReconciling, p, w1)"
      and "client_Get r (perses_key p) w1 = (Inr found, w2)"
      and "createPersesService r p = Inl err"
  shows "reconcileService r req w =
           (RequeueWithError err,
            write_log (LogLine Logger_slog ErrorLevel
              ''Failed to define new Service resource for perses'' (Some err)) w2)"
  using assms by (simp add: reconcileService_def ShouldHaltOrRequeue_def)

lemma reconcileService_update_branch:
  assumes "getLatestPerses r req w = (ContinueReconciling, p, w1)"
      and "client_Get r (perses_key p) w1 = (Inr found, w2)"
      and "createPersesService r p = Inr svc"
  shows "reconcileService r req w =
           (case client_Update r svc True w2 of
              (Inl err, w3) \<Rightarrow>
                (RequeueWithError err,
                 write_log (LogLine Logger_slog ErrorLevel
                   (error_string err @ ''Failed to update Service with dry run'') None) w3)
            | (Inr svc', w3) \<Rightarrow>
                if \<not> DeepEqual found svc'
                then
                  (case client_Update r svc' False w3 of
                     (Inl err, w4) \<Rightarrow>
                       (RequeueWithError err,
                        write_log (LogLine Logger_slog ErrorLevel
                          (error_string err @ ''Failed to update Service'') None) w4)
                   | (Inr svc'', w4) \<Rightarrow> (ContinueReconciling, w4))
                else (ContinueReconciling, w3))"
  using assms by (simp add: reconcileService_def ShouldHaltOrRequeue_def Let_def)




lemma reconcileService_updates:
  assumes "getPersesFault (Client r) req = None" and "persesObjects w req = Some p"
      and "getServiceFault (Client r) (perses_key p) = None"
      and "services w (perses_key p) = Some found"
      and "createPersesService r p = Inr svc"
      and "admitUpdate (Client r) True found svc = Inr svc'"
      and "\<not> DeepEqual found svc'"
      and "service_key svc' = perses_key p"
      and "admitUpdate (Client r) False found svc' = Inr svc''"
  shows "fst (reconcileService r req w) = ContinueReconciling"
    and "new_calls w (snd (reconcileService r req w)) =
           [GetPersesCall req, GetServiceCall (perses_key p), UpdateCall svc True,
            UpdateCall svc' False]"
proof -
  define w1 where "w1 = record_call (GetPersesCall req) w"
  define w2 where "w2 = record_call (GetServiceCall (perses_key p)) w1"
  define w3 where "w3 = record_call (UpdateCall svc True) w2"
  have glp: "getLatestPerses r req w = (ContinueReconciling, p, w1)"
    using assms(1,2) by (simp add: getLatestPerses_Continue w1_def)
  have get: "client_Get r (perses_key p) w1 = (Inr found, w2)"
    using assms(3,4) by (simp add: client_Get_found w1_def w2_def record_call_def)
  have dry: "client_Update r svc True w2 = (Inr svc', w3)"
    using assms(4,6) service_key_built[OF assms(5)]
    by (simp add: client_Update_def Let_def w1_def w2_def w3_def record_call_def)
  obtain w4 where real: "client_Update r svc' False w3 = (Inr svc'', w4)"
    using assms(4,8,9)
    by (simp add: client_Update_def Let_def w1_def w2_def w3_def record_call_def)
  have run: "reconcileService r req w = (ContinueReconciling, w4)"
    using reconcileService_update_branch[OF glp get assms(5)] dry real assms(7) by simp
  show "fst (reconcileService r req w) = ContinueReconciling"
    by (simp add: run)
  have "calls w4 = calls w @ [GetPersesCall req, GetServiceCall (perses_key p),
      UpdateCall svc True, UpdateCall svc' False]"
    using client_Update_world[OF real] by (simp add: w3_def w2_def w1_def record_call_def)
  then show "new_calls w (snd (reconcileService r req w)) =
           [GetPersesCall req, GetServiceCall (perses_key p), UpdateCall svc True,
            UpdateCall svc' False]"
    by (simp add: run new_calls_def)
qed

lemma reconcileService_submits:
  assumes "getLatestPerses r req w = (ContinueReconciling, p, w1)"
      and "createPersesService r p = Inr ser"
      and "reconcileService r req w = (sig, w')"
  shows "set (new_calls w w')
           \<subseteq> {GetPersesCall req, GetServiceCall (perses_key p), CreateCall ser,
                UpdateCall ser True}
             \<union> {UpdateCall n False |n.
                  \<exists>old. services w (perses_key p) = Some old
                    \<and> admitUpdate (Client r) True old ser = Inr n}"
proof -
  obtain res w2 where get: "client_Get r (perses_key p) w1 = (res, w2)"
    by (cases "client_Get r (perses_key p) w1")
  note reads = reads_so_far[OF assms(1) get]
  show ?thesis
  proof (cases res)
    case (Inl err)
    show ?thesis
    proof (cases "IsNotFound err")
      case False
      have "calls w' = calls w2"
        using reconcileService_read_failure[OF assms(1) get[unfolded Inl] False] assms(3)
        by (auto simp: write_log_def)
      then show ?thesis
        by (simp add: new_calls_def reads)
    next
      case True
      define w3 where "w3 = write_log (LogLine Logger_slog InfoLevel
                  (''Creating a new Service: '' @ service_location ser) None) w2"
      obtain cres w4 where cr: "client_Create r ser w3 = (cres, w4)"
        by (cases "client_Create r ser w3")
      have "calls w' = calls w4"
        using reconcileService_create_branch[OF assms(1) get[unfolded Inl] True assms(2) w3_def]
          cr assms(3)
        by (cases cres) (auto simp: write_log_def)
      moreover have "calls w4 = calls w3 @ [CreateCall ser]"
        using client_Create_world[OF cr] by simp
      moreover have "calls w3 = calls w2"
        by (simp add: w3_def write_log_def)
      ultimately show ?thesis
        by (simp add: new_calls_def reads)
    qed
  next
    case (Inr found)
    note run = reconcileService_update_branch[OF assms(1) get[unfolded Inr] assms(2)]
    obtain ures w3 where dry: "client_Update r ser True w2 = (ures, w3)"
      by (cases "client_Update r ser True w2")
    have calls3: "calls w3 = calls w @
        [GetPersesCall req, GetServiceCall (perses_key p), UpdateCall ser True]"
      using client_Update_world[OF dry] by (simp add: reads)
    show ?thesis
    proof (cases ures)
      case (Inl err)
      have "calls w' = calls w3"
        using run dry assms(3) Inl by (auto simp: write_log_def)
      then show ?thesis
        by (simp add: new_calls_def calls3)
    next
      case (Inr svc')
      have admitted: "\<exists>old. services w (perses_key p) = Some old
          \<and> admitUpdate (Client r) True old ser = Inr svc'"
        using client_Update_success[OF dry[unfolded Inr]]
        by (auto simp: reads service_key_built[OF assms(2)])
      show ?thesis
      proof (cases "DeepEqual found svc'")
        case True
        have "calls w' = calls w3"
          using run dry assms(3) Inr True by auto
        then show ?thesis
          by (simp add: new_calls_def calls3)
      next
        case False
        obtain rres w4 where real: "client_Update r svc' False w3 = (rres, w4)"
          by (cases "client_Update r svc' False w3")
        have "calls w' = calls w4"
          using run dry assms(3) Inr False real by (cases rres) (auto simp: write_log_def)
        moreover have "calls w4 = calls w3 @ [UpdateCall svc' False]"
          using client_Update_world[OF real] by simp
        ultimately show ?thesis
          using admitted by (simp add: new_calls_def calls3)
      qed
    qed
  qed
qed

section \<open>Runs on the example cluster\<close>

lemma demo_build: "createPersesService demo_reconciler demo_perses = Inr demo_service"
  by (simp add: createPersesService_def demo_reconciler_def demo_perses_def demo_service_def
      SetControllerReference_def controllerRef_def zero_objectMeta_def FromInt32_def)

lemma bare_build: "createPersesService demo_reconciler bare_perses = Inr bare_service"
  by (simp add: createPersesService_def demo_reconciler_def demo_perses_def demo_service_def
      bare_perses_def bare_service_def
      SetControllerReference_def controllerRef_def zero_objectMeta_def FromInt32_def)

lemma demo_perses_name: "Name (p_ObjectMeta demo_perses) = ''sample''"
  by (simp add: demo_perses_def zero_objectMeta_def)

lemma demo_perses_key: "perses_key demo_perses = demo_key"
  by (simp add: perses_key_def demo_perses_def demo_key_def zero_objectMeta_def)

lemma demo_getLatestPerses:
  "getPersesFault (Client r) demo_key = None \<Longrightarrow>
   persesObjects w demo_key = Some demo_perses \<Longrightarrow>
   getLatestPerses r demo_key w =
     (ContinueReconciling, demo_perses, record_call (GetPersesCall demo_key) w)"
  by (simp add: getLatestPerses_def client_GetPerses_def Let_def)

lemma stored_fields:
  "UID (svc_ObjectMeta stored_service) = ''svc-uid''"
  "ResourceVersion (svc_ObjectMeta stored_service) = ''1''"
  "spec_ClusterIP (svc_Spec stored_service) = ''10.0.0.7''"
  by (simp_all add: stored_service_def)

lemma settled_lookup: "services settled_world demo_key = Some stored_service"
  by (simp add: settled_world_def)

lemma demo_service_key: "service_key demo_service = demo_key"
  using service_key_built[OF demo_build] by (simp add: demo_perses_key)

lemma demo_dry_run:
  assumes "services w demo_key = Some old"
      and "UID (svc_ObjectMeta old) = ''svc-uid''"
      and "ResourceVersion (svc_ObjectMeta old) = ''1''"
      and "spec_ClusterIP (svc_Spec old) = ''10.0.0.7''"
  shows "client_Update demo_reconciler demo_service True w =
           (Inr stored_service, record_call (UpdateCall demo_service True) w)"
proof -
  have key: "service_key demo_service = demo_key"
    using service_key_built[OF demo_build] by (simp add: demo_perses_key)
  show ?thesis
    using assms
    by (simp add: client_Update_def key Let_def demo_reconciler_def demo_server_def
        stored_service_def)
qed

lemma drifted_differs: "\<not> DeepEqual drifted_service stored_service"
proof -
  have "entries (demo_labels ''old'') \<noteq> entries (demo_labels ''sample'')"
  proof
    assume "entries (demo_labels ''old'') = entries (demo_labels ''sample'')"
    then have "entries (demo_labels ''old'') ''app.kubernetes.io/instance''
        = entries (demo_labels ''sample'') ''app.kubernetes.io/instance''"
      by (rule arg_cong)
    then show False
      by (simp add: entries_def demo_labels_def)
  qed
  then show ?thesis
    by (simp add: DeepEqual_def DeepEqual_objectMeta_def drifted_service_def stored_service_def
        demo_service_def)
qed


lemma demo_keeps_identity: "keeps_identity (Client demo_reconciler)"
  by (auto simp: keeps_identity_def demo_reconciler_def demo_server_def)



lemma drifted_run:
  "\<exists>w'. reconcileService demo_reconciler demo_key drifted_world = (ContinueReconciling, w')
     \<and> new_calls drifted_world w' =
          [GetPersesCall demo_key, GetServiceCall demo_key, UpdateCall demo_service True,
           UpdateCall stored_service False]"
proof -
  define w2 where "w2 = record_call (GetServiceCall demo_key)
                          (record_call (GetPersesCall demo_key) drifted_world)"
  define w3 where "w3 = record_call (UpdateCall demo_service True) w2"
  have h1: "getLatestPerses demo_reconciler demo_key drifted_world =
      (ContinueReconciling, demo_perses, record_call (GetPersesCall demo_key) drifted_world)"
    by (rule demo_getLatestPerses)
       (simp_all add: demo_reconciler_def demo_server_def drifted_world_def demo_world_def)
  have h2: "client_Get demo_reconciler (perses_key demo_perses)
              (record_call (GetPersesCall demo_key) drifted_world) = (Inr drifted_service, w2)"
    by (simp add: client_Get_def demo_reconciler_def demo_server_def w2_def
        demo_perses_key drifted_world_def record_call_def)
  have h4: "client_Update demo_reconciler demo_service True w2 = (Inr stored_service, w3)"
    unfolding w3_def
    by (rule demo_dry_run[where old = drifted_service])
       (simp_all add: w2_def drifted_world_def record_call_def drifted_service_def
          stored_service_def)
  have key: "service_key stored_service = demo_key"
    using service_key_built[OF demo_build]
    by (simp add: demo_perses_key service_key_def stored_service_def)
  have old: "services w3 (service_key stored_service) = Some drifted_service"
    by (simp add: key w3_def w2_def drifted_world_def record_call_def)
  have admit: "admitUpdate (Client demo_reconciler) False drifted_service stored_service
        = Inr stored_service"
    by (simp add: demo_reconciler_def demo_server_def drifted_service_def stored_service_def)
  obtain w4 where real: "client_Update demo_reconciler stored_service False w3
      = (Inr stored_service, w4)"
    by (simp add: client_Update_def old admit Let_def)
  have run: "reconcileService demo_reconciler demo_key drifted_world = (ContinueReconciling, w4)"
    using reconcileService_update_branch[OF h1 h2 demo_build] h4 real drifted_differs
    by simp
  have "calls w4 = calls drifted_world @
      [GetPersesCall demo_key, GetServiceCall demo_key, UpdateCall demo_service True,
       UpdateCall stored_service False]"
    using client_Update_world[OF real]
    by (simp add: w3_def w2_def record_call_def)
  with run show ?thesis
    by (simp add: new_calls_def)
qed

section \<open>The drift check\<close>

text \<open>
  C1. In the update branch, once the dry-run update has answered: when the observed Service
  and the server's answer are equal over all fields, no persisting update call is made and
  the signal is continue; when they differ, exactly one persisting update call is made,
  and the signal is continue if it succeeds and requeue-with-error if it fails.
\<close>

theorem drift_check_decides_update:
  assumes "getLatestPerses r req w = (ContinueReconciling, p, w1)"
      and "client_Get r (perses_key p) w1 = (Inr found, w2)"
      and "createPersesService r p = Inr svc"
      and "client_Update r svc True w2 = (Inr svc', w3)"
      and "reconcileService r req w = (sig, w')"
  shows "(DeepEqual found svc' \<longrightarrow>
            sig = ContinueReconciling
          \<and> new_calls w w' =
              [GetPersesCall req, GetServiceCall (perses_key p), UpdateCall svc True]
          \<and> filter persisting_write (new_calls w w') = []
          \<and> services w' = services w)
       \<and> (\<not> DeepEqual found svc' \<longrightarrow>
            new_calls w w' =
              [GetPersesCall req, GetServiceCall (perses_key p), UpdateCall svc True,
               UpdateCall svc' False]
          \<and> filter persisting_write (new_calls w w') = [UpdateCall svc' False]
          \<and> (case fst (client_Update r svc' False w3) of
                Inl err \<Rightarrow> sig = RequeueWithError err
              | Inr svc'' \<Rightarrow> sig = ContinueReconciling))"
proof (intro conjI impI)
  have calls3: "calls w3 =
      calls w @ [GetPersesCall req, GetServiceCall (perses_key p), UpdateCall svc True]"
    and svcs3: "services w3 = services w"
    using reads_so_far[OF assms(1,2)] client_Update_world[OF assms(4)]
      client_Update_dry_run[OF assms(4)] by simp_all
  note run = reconcileService_update_branch[OF assms(1-3)]
  {
    assume eq: "DeepEqual found svc'"
    with run assms(4,5) have "sig = ContinueReconciling" and w': "w' = w3"
      by simp_all
    then show "sig = ContinueReconciling" by simp
    show trace: "new_calls w w' =
        [GetPersesCall req, GetServiceCall (perses_key p), UpdateCall svc True]"
      by (simp add: new_calls_def w' calls3)
    show "filter persisting_write (new_calls w w') = []"
      by (simp add: trace)
    show "services w' = services w"
      by (simp add: w' svcs3)
  }
  {
    assume neq: "\<not> DeepEqual found svc'"
    obtain res w4 where up: "client_Update r svc' False w3 = (res, w4)"
      by (cases "client_Update r svc' False w3")
    have calls4: "calls w4 = calls w3 @ [UpdateCall svc' False]"
      using client_Update_world[OF up] by simp
    have "calls w' = calls w4
        \<and> (case res of Inl err \<Rightarrow> sig = RequeueWithError err
                      | Inr svc'' \<Rightarrow> sig = ContinueReconciling)"
      using run assms(4,5) neq up by (cases res) (auto simp: write_log_def)
    then have calls': "calls w' = calls w4"
      and sig: "case res of Inl err \<Rightarrow> sig = RequeueWithError err
                          | Inr svc'' \<Rightarrow> sig = ContinueReconciling"
      by simp_all
    show trace: "new_calls w w' =
        [GetPersesCall req, GetServiceCall (perses_key p), UpdateCall svc True,
         UpdateCall svc' False]"
      by (simp add: new_calls_def calls' calls4 calls3)
    show "filter persisting_write (new_calls w w') = [UpdateCall svc' False]"
      by (simp add: trace)
    show "case fst (client_Update r svc' False w3) of
            Inl err \<Rightarrow> sig = RequeueWithError err
          | Inr svc'' \<Rightarrow> sig = ContinueReconciling"
      using sig by (simp add: up)
  }
qed

theorem drift_check_decides_update_witness:
  "(\<exists>w'. reconcileService demo_reconciler demo_key settled_world = (ContinueReconciling, w')
      \<and> filter persisting_write (new_calls settled_world w') = [])
   \<and> (\<exists>w'. reconcileService demo_reconciler demo_key drifted_world = (ContinueReconciling, w')
      \<and> filter persisting_write (new_calls drifted_world w') = [UpdateCall stored_service False])"
proof
  obtain sig w' where run: "reconcileService demo_reconciler demo_key settled_world = (sig, w')"
    by (cases "reconcileService demo_reconciler demo_key settled_world")
  define w2 where "w2 = record_call (GetServiceCall demo_key)
                          (record_call (GetPersesCall demo_key) settled_world)"
  have h1: "getLatestPerses demo_reconciler demo_key settled_world =
      (ContinueReconciling, demo_perses, record_call (GetPersesCall demo_key) settled_world)"
    by (rule demo_getLatestPerses)
       (simp_all add: demo_reconciler_def demo_server_def settled_world_def demo_world_def)
  have h2: "client_Get demo_reconciler (perses_key demo_perses)
              (record_call (GetPersesCall demo_key) settled_world) = (Inr stored_service, w2)"
    by (simp add: client_Get_def demo_reconciler_def demo_server_def w2_def
        demo_perses_key settled_world_def record_call_def)
  have h4: "client_Update demo_reconciler demo_service True w2 =
      (Inr stored_service, record_call (UpdateCall demo_service True) w2)"
    by (rule demo_dry_run[where old = stored_service])
       (simp_all add: w2_def record_call_def settled_lookup stored_fields)
  from drift_check_decides_update[OF h1 h2 demo_build h4 run] DeepEqual_refl
  have "sig = ContinueReconciling"
    and "filter persisting_write (new_calls settled_world w') = []"
    by blast+
  with run
  show "\<exists>w'. reconcileService demo_reconciler demo_key settled_world = (ContinueReconciling, w')
      \<and> filter persisting_write (new_calls settled_world w') = []"
    by simp
next
  obtain sig w' where run: "reconcileService demo_reconciler demo_key drifted_world = (sig, w')"
    by (cases "reconcileService demo_reconciler demo_key drifted_world")
  define w2 where "w2 = record_call (GetServiceCall demo_key)
                          (record_call (GetPersesCall demo_key) drifted_world)"
  define w3 where "w3 = record_call (UpdateCall demo_service True) w2"
  have h1: "getLatestPerses demo_reconciler demo_key drifted_world =
      (ContinueReconciling, demo_perses, record_call (GetPersesCall demo_key) drifted_world)"
    by (rule demo_getLatestPerses)
       (simp_all add: demo_reconciler_def demo_server_def drifted_world_def demo_world_def)
  have h2: "client_Get demo_reconciler (perses_key demo_perses)
              (record_call (GetPersesCall demo_key) drifted_world) = (Inr drifted_service, w2)"
    by (simp add: client_Get_def demo_reconciler_def demo_server_def w2_def
        demo_perses_key drifted_world_def record_call_def)
  have h4: "client_Update demo_reconciler demo_service True w2 = (Inr stored_service, w3)"
    unfolding w3_def
    by (rule demo_dry_run[where old = drifted_service])
       (simp_all add: w2_def drifted_world_def record_call_def drifted_service_def
          stored_service_def)
  have key: "service_key stored_service = demo_key"
    using service_key_built[OF demo_build]
    by (simp add: demo_perses_key service_key_def stored_service_def)
  have old: "services w3 (service_key stored_service) = Some drifted_service"
    by (simp add: key w3_def w2_def drifted_world_def record_call_def)
  have admit: "admitUpdate (Client demo_reconciler) False drifted_service stored_service
        = Inr stored_service"
    by (simp add: demo_reconciler_def demo_server_def drifted_service_def stored_service_def)
  have real: "fst (client_Update demo_reconciler stored_service False w3) = Inr stored_service"
    by (simp add: client_Update_def old admit Let_def)
  note inst = drift_check_decides_update[OF h1 h2 demo_build h4 run]
  from inst drifted_differs have
    trace: "filter persisting_write (new_calls drifted_world w') = [UpdateCall stored_service False]"
    and sig: "case fst (client_Update demo_reconciler stored_service False w3) of
                Inl err \<Rightarrow> sig = RequeueWithError err
              | Inr svc'' \<Rightarrow> sig = ContinueReconciling"
    by blast+
  from sig have "sig = ContinueReconciling"
    by (simp add: real)
  with run trace
  show "\<exists>w'. reconcileService demo_reconciler demo_key drifted_world = (ContinueReconciling, w')
      \<and> filter persisting_write (new_calls drifted_world w') = [UpdateCall stored_service False]"
    by simp
qed

section \<open>Creation\<close>

text \<open>
  C2. When the Service is not found and both the build and the create call succeed, the
  invocation makes exactly one create call. The created Service has the parent's name and
  namespace, the derived labels as labels and as selector, the single port
  (http, 8080, TCP, target 8080) and one owner reference, to the parent; the signal is
  continue.
\<close>

theorem create_when_absent:
  assumes "getLatestPerses r req w = (ContinueReconciling, p, w1)"
      and "client_Get r (perses_key p) w1 = (Inl err, w2)"
      and "IsNotFound err"
      and "createPersesService r p = Inr ser"
      and "fst (client_Create r ser (write_log (LogLine Logger_slog InfoLevel
                  (''Creating a new Service: '' @ service_location ser) None) w2)) = None"
      and "reconcileService r req w = (sig, w')"
  shows "sig = ContinueReconciling
       \<and> new_calls w w' = [GetPersesCall req, GetServiceCall (perses_key p), CreateCall ser]
       \<and> Name (svc_ObjectMeta ser) = Name (p_ObjectMeta p)
       \<and> Namespace (svc_ObjectMeta ser) = Namespace (p_ObjectMeta p)
       \<and> LabelsForPerses r (PersesImage r) (Name (p_ObjectMeta p)) p
           = Inr (Labels (svc_ObjectMeta ser))
       \<and> spec_Selector (svc_Spec ser) = Labels (svc_ObjectMeta ser)
       \<and> spec_Ports (svc_Spec ser) =
           [\<lparr>port_Name = ''http'', port_Port = 8080, port_Protocol = ProtocolTCP,
             port_TargetPort = IntVal 8080\<rparr>]
       \<and> (\<exists>gvk. Scheme r = Some gvk
            \<and> OwnerReferences (svc_ObjectMeta ser) =
                [\<lparr>or_apiVersion = fst gvk, or_kind = snd gvk,
                  or_name = Name (p_ObjectMeta p), or_uid = UID (p_ObjectMeta p),
                  or_controller = Some True, or_blockOwnerDeletion = Some True\<rparr>])
       \<and> (\<exists>stored. admitCreate (Client r) ser = Inr stored
            \<and> services w' = (services w)(perses_key p \<mapsto> stored))"
proof -
  define w3 where "w3 = write_log (LogLine Logger_slog InfoLevel
                  (''Creating a new Service: '' @ service_location ser) None) w2"
  obtain w4 where cr: "client_Create r ser w3 = (None, w4)"
    using assms(5) unfolding w3_def[symmetric] by (cases "client_Create r ser w3") auto
  have run: "reconcileService r req w = (ContinueReconciling, w4)"
    using reconcileService_create_branch[OF assms(1-4) w3_def] cr by simp
  then have sig: "sig = ContinueReconciling" and w': "w' = w4"
    using assms(6) by simp_all
  have calls3: "calls w3 = calls w @ [GetPersesCall req, GetServiceCall (perses_key p)]"
    and svcs3: "services w3 = services w"
    using reads_so_far[OF assms(1,2)] by (simp_all add: w3_def write_log_def)
  have trace: "new_calls w w' = [GetPersesCall req, GetServiceCall (perses_key p), CreateCall ser]"
    using client_Create_world[OF cr] by (simp add: new_calls_def w' calls3)
  have stored: "\<exists>stored. admitCreate (Client r) ser = Inr stored
            \<and> services w' = (services w)(perses_key p \<mapsto> stored)"
    using client_Create_success[OF cr] by (simp add: w' svcs3 service_key_built[OF assms(4)])
  from assms(4) show ?thesis
  proof (rule createPersesService_shape)
    fix ls gvk
    assume "LabelsForPerses r (PersesImage r) (Name (p_ObjectMeta p)) p = Inr ls"
      "Scheme r = Some gvk"
      "Name (svc_ObjectMeta ser) = Name (p_ObjectMeta p)"
      "Namespace (svc_ObjectMeta ser) = Namespace (p_ObjectMeta p)"
      "Labels (svc_ObjectMeta ser) = ls"
      "OwnerReferences (svc_ObjectMeta ser) = [controllerRef p gvk]"
      "spec_Selector (svc_Spec ser) = ls"
      "spec_Ports (svc_Spec ser) =
         [\<lparr>port_Name = ''http'', port_Port = 8080, port_Protocol = ProtocolTCP,
           port_TargetPort = IntVal 8080\<rparr>]"
    with sig trace stored show ?thesis
      by (simp add: controllerRef_def)
  qed
qed


theorem create_when_absent_witness:
  "\<exists>w'. reconcileService demo_reconciler demo_key demo_world = (ContinueReconciling, w')
     \<and> new_calls demo_world w' =
          [GetPersesCall demo_key, GetServiceCall demo_key, CreateCall demo_service]
     \<and> services w' = [demo_key \<mapsto> stored_service]"
proof -
  obtain sig w' where run: "reconcileService demo_reconciler demo_key demo_world = (sig, w')"
    by (cases "reconcileService demo_reconciler demo_key demo_world")
  have h1: "getLatestPerses demo_reconciler demo_key demo_world =
      (ContinueReconciling, demo_perses, record_call (GetPersesCall demo_key) demo_world)"
    by (rule demo_getLatestPerses)
       (simp_all add: demo_reconciler_def demo_server_def demo_world_def)
  have h2: "client_Get demo_reconciler (perses_key demo_perses)
              (record_call (GetPersesCall demo_key) demo_world) =
      (Inl (NotFoundError ''service not found''),
       record_call (GetServiceCall demo_key) (record_call (GetPersesCall demo_key) demo_world))"
    by (simp add: client_Get_def demo_reconciler_def demo_server_def
        demo_perses_key demo_world_def record_call_def)
  have h3: "IsNotFound (NotFoundError ''service not found'')"
    by simp
  have admit: "admitCreate (Client demo_reconciler) demo_service = Inr stored_service"
    by (simp add: demo_reconciler_def demo_server_def stored_service_def)
  have key: "service_key demo_service = demo_key"
    using service_key_built[OF demo_build] by (simp add: demo_perses_key)
  have h5: "fst (client_Create demo_reconciler demo_service w) = None"
    if "services w = Map.empty" for w
    using that by (simp add: client_Create_def admit Let_def)
  from create_when_absent[OF h1 h2 h3 demo_build h5 run] admit run show ?thesis
    by (simp add: demo_perses_key demo_world_def write_log_def record_call_def)
qed

section \<open>Idempotence\<close>




section \<open>Failures of the build and of the status update\<close>

text \<open>
  C4. When the Service is not found and the build fails, the parent submitted to the
  status update carries the condition (Available, false, Reconciling) whose message names
  the parent and the build error; when that status update succeeds, the status is stored
  and the signal is requeue-with-error with the build error.
\<close>

theorem create_build_failure_sets_condition:
  assumes "getLatestPerses r req w = (ContinueReconciling, p, w1)"
      and "client_Get r (perses_key p) w1 = (Inl err, w2)"
      and "IsNotFound err"
      and "createPersesService r p = Inl err2"
      and "reconcileService r req w = (sig, w')"
  shows "\<exists>p'. new_calls w w' =
                [GetPersesCall req, GetServiceCall (perses_key p), StatusUpdateCall p']
          \<and> p_ObjectMeta p' = p_ObjectMeta p \<and> p_Spec p' = p_Spec p
          \<and> FindStatusCondition (Conditions (p_Status p')) ''Available'' =
               Some \<lparr>cond_Type = ''Available'', cond_Status = ConditionFalse,
                     cond_Reason = ''Reconciling'',
                     cond_Message =
                       ''Failed to create Service for the custom resource (''
                         @ Name (p_ObjectMeta p) @ ''): ('' @ error_string err2 @ '')''\<rparr>
          \<and> (fst (status_Update r p' (write_log (LogLine Logger_slog ErrorLevel
                  ''Failed to define new Service resource for perses'' (Some err2)) w2)) = None
               \<longrightarrow> sig = RequeueWithError err2
                 \<and> (\<exists>old. persesObjects w (perses_key p) = Some old
                      \<and> persesObjects w' (perses_key p) = Some (old\<lparr>p_Status := p_Status p'\<rparr>)))"
proof -
  define c where "c = \<lparr>cond_Type = TypeAvailablePerses, cond_Status = ConditionFalse,
                      cond_Reason = ''Reconciling'',
                      cond_Message = build_failure_message (Name (p_ObjectMeta p)) err2\<rparr>"
  define p' where "p' = p\<lparr>p_Status := (p_Status p)\<lparr>Conditions :=
                   SetStatusCondition (Conditions (p_Status p)) c\<rparr>\<rparr>"
  define w3 where "w3 = write_log (LogLine Logger_slog ErrorLevel
                  ''Failed to define new Service resource for perses'' (Some err2)) w2"
  have w1: "w1 = record_call (GetPersesCall req) w"
    using assms(1) by (rule getLatestPerses_world)
  have w2: "w2 = record_call (GetServiceCall (perses_key p)) w1"
    using assms(2) by (rule client_Get_world)
  have calls3: "calls w3 = calls w @ [GetPersesCall req, GetServiceCall (perses_key p)]"
    by (simp add: w3_def w2 w1 record_call_def write_log_def)
  have objs3: "persesObjects w3 = persesObjects w"
    by (simp add: w3_def w2 w1 record_call_def write_log_def)
  have run: "reconcileService r req w =
           (case status_Update r p' w3 of
              (Some err', w4) \<Rightarrow>
                (RequeueWithError err',
                 write_log (LogLine Logger_slog ErrorLevel
                   (error_string err' @ ''Failed to update perses status'') None) w4)
            | (None, w4) \<Rightarrow> (RequeueWithError err2, w4))"
    by (rule reconcileService_create_build_failure[OF assms(1-4)])
       (simp_all add: p'_def c_def w3_def)
  obtain res w4 where su: "status_Update r p' w3 = (res, w4)"
    by (cases "status_Update r p' w3")
  have calls4: "calls w4 = calls w3 @ [StatusUpdateCall p']"
    using status_Update_world[OF su] by simp
  have calls': "calls w' = calls w4"
    using run su assms(5) by (cases res) (auto simp: write_log_def)
  have trace: "new_calls w w' =
      [GetPersesCall req, GetServiceCall (perses_key p), StatusUpdateCall p']"
    by (simp add: new_calls_def calls' calls4 calls3)
  have found_c: "FindStatusCondition (Conditions (p_Status p')) (cond_Type c) = Some c"
    by (simp add: p'_def FindStatusCondition_SetStatusCondition)
  have cond: "FindStatusCondition (Conditions (p_Status p')) ''Available'' =
               Some \<lparr>cond_Type = ''Available'', cond_Status = ConditionFalse,
                     cond_Reason = ''Reconciling'',
                     cond_Message =
                       ''Failed to create Service for the custom resource (''
                         @ Name (p_ObjectMeta p) @ ''): ('' @ error_string err2 @ '')''\<rparr>"
    using found_c by (simp add: c_def TypeAvailablePerses_def build_failure_message_def)
  have key: "perses_key p' = perses_key p"
    by (simp add: p'_def perses_key_def)
  have ok: "sig = RequeueWithError err2
      \<and> (\<exists>old. persesObjects w (perses_key p) = Some old
            \<and> persesObjects w' (perses_key p) = Some (old\<lparr>p_Status := p_Status p'\<rparr>))"
    if "res = None"
  proof -
    from that su have su': "status_Update r p' w3 = (None, w4)" by simp
    from run su' assms(5) have "sig = RequeueWithError err2" and "w' = w4" by auto
    moreover from status_Update_success[OF su'] obtain old where
      "persesObjects w3 (perses_key p') = Some old"
      "persesObjects w4 = (persesObjects w3)(perses_key p' \<mapsto> old\<lparr>p_Status := p_Status p'\<rparr>)"
      by blast
    ultimately show ?thesis by (simp add: objs3 key)
  qed
  have "p_ObjectMeta p' = p_ObjectMeta p" "p_Spec p' = p_Spec p"
    by (simp_all add: p'_def)
  with trace cond ok su show ?thesis
    unfolding w3_def by (intro exI[of _ p']) simp
qed


theorem create_build_failure_sets_condition_witness:
  "\<exists>sig w' p'.
     reconcileService unlabelled_reconciler demo_key demo_world = (sig, w')
     \<and> sig = RequeueWithError (OtherError ''invalid image'')
     \<and> new_calls demo_world w' =
          [GetPersesCall demo_key, GetServiceCall demo_key, StatusUpdateCall p']
     \<and> FindStatusCondition (Conditions (p_Status p')) ''Available'' =
          Some \<lparr>cond_Type = ''Available'', cond_Status = ConditionFalse,
                cond_Reason = ''Reconciling'',
                cond_Message =
                  ''Failed to create Service for the custom resource (sample): (invalid image)''\<rparr>"
proof -
  obtain sig w' where run: "reconcileService unlabelled_reconciler demo_key demo_world = (sig, w')"
    by (cases "reconcileService unlabelled_reconciler demo_key demo_world")
  have h1: "getLatestPerses unlabelled_reconciler demo_key demo_world =
      (ContinueReconciling, demo_perses, record_call (GetPersesCall demo_key) demo_world)"
    by (rule demo_getLatestPerses)
       (simp_all add: unlabelled_reconciler_def demo_reconciler_def demo_server_def demo_world_def)
  have h2: "client_Get unlabelled_reconciler (perses_key demo_perses)
              (record_call (GetPersesCall demo_key) demo_world) =
      (Inl (NotFoundError ''service not found''),
       record_call (GetServiceCall demo_key) (record_call (GetPersesCall demo_key) demo_world))"
    by (simp add: client_Get_def unlabelled_reconciler_def demo_reconciler_def demo_server_def
        demo_perses_key demo_world_def record_call_def)
  have h3: "IsNotFound (NotFoundError ''service not found'')"
    by simp
  have h4: "createPersesService unlabelled_reconciler demo_perses = Inl (OtherError ''invalid image'')"
    by (rule unlabelled_build) (simp add: unlabelled_reconciler_def)
  have ok: "fst (status_Update unlabelled_reconciler p' w) = None"
    if "persesObjects w (perses_key p') \<noteq> None" for p' w
    using that
    by (auto simp: status_Update_def unlabelled_reconciler_def demo_reconciler_def
        demo_server_def Let_def)
  from create_build_failure_sets_condition[OF h1 h2 h3 h4 run]
  obtain p' where p':
    "new_calls demo_world w' =
       [GetPersesCall demo_key, GetServiceCall (perses_key demo_perses), StatusUpdateCall p']"
    "p_ObjectMeta p' = p_ObjectMeta demo_perses"
    "FindStatusCondition (Conditions (p_Status p')) ''Available'' =
       Some \<lparr>cond_Type = ''Available'', cond_Status = ConditionFalse,
             cond_Reason = ''Reconciling'',
             cond_Message =
               ''Failed to create Service for the custom resource (''
                 @ Name (p_ObjectMeta demo_perses) @ ''): (''
                 @ error_string (OtherError ''invalid image'') @ '')''\<rparr>"
    "fst (status_Update unlabelled_reconciler p' (write_log (LogLine Logger_slog ErrorLevel
        ''Failed to define new Service resource for perses'' (Some (OtherError ''invalid image'')))
        (record_call (GetServiceCall demo_key) (record_call (GetPersesCall demo_key) demo_world)))) = None
      \<longrightarrow> sig = RequeueWithError (OtherError ''invalid image'')"
    by (auto simp: demo_perses_key)
  have "perses_key p' = demo_key"
    using p'(2) demo_perses_key by (simp add: perses_key_def)
  then have "sig = RequeueWithError (OtherError ''invalid image'')"
    using p'(4) by (simp add: ok demo_world_def write_log_def record_call_def)
  with run p'(1,3) show ?thesis
    by (simp add: demo_perses_key demo_perses_name)
qed


text \<open>
  C10. When the Service is not found, the build fails and the status update fails too, the
  signal is requeue-with-error with the error of the status update. The build error appears
  in the message of the recorded condition and in the log.
\<close>

theorem status_update_error_returned:
  assumes "getLatestPerses r req w = (ContinueReconciling, p, w1)"
      and "client_Get r (perses_key p) w1 = (Inl err, w2)"
      and "IsNotFound err"
      and "createPersesService r p = Inl err2"
      and "reconcileService r req w = (sig, w')"
  shows "\<exists>p'. new_calls w w' =
                [GetPersesCall req, GetServiceCall (perses_key p), StatusUpdateCall p']
          \<and> (\<forall>err'. fst (status_Update r p' (write_log (LogLine Logger_slog ErrorLevel
                  ''Failed to define new Service resource for perses'' (Some err2)) w2)) = Some err'
               \<longrightarrow> sig = RequeueWithError err' \<and> persesObjects w' = persesObjects w)
          \<and> (\<exists>c. FindStatusCondition (Conditions (p_Status p')) ''Available'' = Some c
                \<and> cond_Message c =
                    ''Failed to create Service for the custom resource (''
                      @ Name (p_ObjectMeta p) @ ''): ('' @ error_string err2 @ '')'')
          \<and> LogLine Logger_slog ErrorLevel
               ''Failed to define new Service resource for perses'' (Some err2) \<in> set (logs w')"
proof -
  define c where "c = \<lparr>cond_Type = TypeAvailablePerses, cond_Status = ConditionFalse,
                      cond_Reason = ''Reconciling'',
                      cond_Message = build_failure_message (Name (p_ObjectMeta p)) err2\<rparr>"
  define p' where "p' = p\<lparr>p_Status := (p_Status p)\<lparr>Conditions :=
                   SetStatusCondition (Conditions (p_Status p)) c\<rparr>\<rparr>"
  define l where "l = LogLine Logger_slog ErrorLevel
                  ''Failed to define new Service resource for perses'' (Some err2)"
  define w3 where "w3 = write_log l w2"
  have calls3: "calls w3 = calls w @ [GetPersesCall req, GetServiceCall (perses_key p)]"
    and objs3: "persesObjects w3 = persesObjects w"
    and logs3: "logs w3 = logs w @ [l]"
    using reads_so_far[OF assms(1,2)] by (simp_all add: w3_def write_log_def)
  have run: "reconcileService r req w =
           (case status_Update r p' w3 of
              (Some err', w4) \<Rightarrow>
                (RequeueWithError err',
                 write_log (LogLine Logger_slog ErrorLevel
                   (error_string err' @ ''Failed to update perses status'') None) w4)
            | (None, w4) \<Rightarrow> (RequeueWithError err2, w4))"
    by (rule reconcileService_create_build_failure[OF assms(1-4)])
       (simp_all add: p'_def c_def w3_def l_def)
  obtain res w4 where su: "status_Update r p' w3 = (res, w4)"
    by (cases "status_Update r p' w3")
  have w4: "calls w4 = calls w3 @ [StatusUpdateCall p']" "logs w4 = logs w3"
    using status_Update_world[OF su] by simp_all
  have w': "calls w' = calls w4" "l \<in> set (logs w')"
    using run su assms(5) by (cases res; auto simp: write_log_def w4 logs3)+
  have trace: "new_calls w w' =
      [GetPersesCall req, GetServiceCall (perses_key p), StatusUpdateCall p']"
    by (simp add: new_calls_def w' w4 calls3)
  have "FindStatusCondition (Conditions (p_Status p')) (cond_Type c) = Some c"
    by (simp add: p'_def FindStatusCondition_SetStatusCondition)
  then have cond: "\<exists>c. FindStatusCondition (Conditions (p_Status p')) ''Available'' = Some c
                \<and> cond_Message c =
                    ''Failed to create Service for the custom resource (''
                      @ Name (p_ObjectMeta p) @ ''): ('' @ error_string err2 @ '')''"
    by (simp add: c_def TypeAvailablePerses_def build_failure_message_def)
  have failed: "sig = RequeueWithError err' \<and> persesObjects w' = persesObjects w"
    if "res = Some err'" for err'
  proof -
    from that su have su': "status_Update r p' w3 = (Some err', w4)" by simp
    from run su' assms(5) have "sig = RequeueWithError err'"
      and "persesObjects w' = persesObjects w4" by (auto simp: write_log_def)
    with status_Update_failure[OF su'] show ?thesis by (simp add: objs3)
  qed
  from trace cond failed su w'(2) show ?thesis
    unfolding w3_def l_def by (intro exI[of _ p']) simp
qed

theorem status_update_error_returned_witness:
  "\<exists>sig w' p'.
     reconcileService conflicting_reconciler demo_key demo_world = (sig, w')
     \<and> createPersesService conflicting_reconciler demo_perses = Inl (OtherError ''invalid image'')
     \<and> sig = RequeueWithError (OtherError ''conflict'')
     \<and> new_calls demo_world w' =
          [GetPersesCall demo_key, GetServiceCall demo_key, StatusUpdateCall p']"
proof -
  obtain sig w' where run: "reconcileService conflicting_reconciler demo_key demo_world = (sig, w')"
    by (cases "reconcileService conflicting_reconciler demo_key demo_world")
  have h1: "getLatestPerses conflicting_reconciler demo_key demo_world =
      (ContinueReconciling, demo_perses, record_call (GetPersesCall demo_key) demo_world)"
    by (rule demo_getLatestPerses)
       (simp_all add: conflicting_reconciler_def demo_server_def demo_world_def)
  have h2: "client_Get conflicting_reconciler (perses_key demo_perses)
              (record_call (GetPersesCall demo_key) demo_world) =
      (Inl (NotFoundError ''service not found''),
       record_call (GetServiceCall demo_key) (record_call (GetPersesCall demo_key) demo_world))"
    by (simp add: client_Get_def conflicting_reconciler_def demo_server_def
        demo_perses_key demo_world_def record_call_def)
  have h3: "IsNotFound (NotFoundError ''service not found'')"
    by simp
  have h4: "createPersesService conflicting_reconciler demo_perses = Inl (OtherError ''invalid image'')"
    by (rule unlabelled_build)
       (simp add: conflicting_reconciler_def unlabelled_reconciler_def)
  have fails: "fst (status_Update conflicting_reconciler p' w) = Some (OtherError ''conflict'')"
    for p' w
    by (simp add: status_Update_def conflicting_reconciler_def Let_def)
  from status_update_error_returned[OF h1 h2 h3 h4 run] fails
  obtain p' where
    "new_calls demo_world w' =
       [GetPersesCall demo_key, GetServiceCall (perses_key demo_perses), StatusUpdateCall p']"
    "sig = RequeueWithError (OtherError ''conflict'')"
    by auto
  with run h4 show ?thesis
    by (simp add: demo_perses_key)
qed

text \<open>
  C6. When the Service exists and the build fails, the invocation returns
  requeue-with-error with the build error; it makes no status update, and the stored
  parents, with their conditions, are unchanged.
\<close>

theorem update_build_failure_no_status_write:
  assumes "getLatestPerses r req w = (ContinueReconciling, p, w1)"
      and "client_Get r (perses_key p) w1 = (Inr found, w2)"
      and "createPersesService r p = Inl err"
  shows "fst (reconcileService r req w) = RequeueWithError err
       \<and> new_calls w (snd (reconcileService r req w)) =
           [GetPersesCall req, GetServiceCall (perses_key p)]
       \<and> persesObjects (snd (reconcileService r req w)) = persesObjects w
       \<and> services (snd (reconcileService r req w)) = services w"
proof -
  have w1: "w1 = record_call (GetPersesCall req) w"
    using assms(1) by (rule getLatestPerses_world)
  have w2: "w2 = record_call (GetServiceCall (perses_key p)) w1"
    using assms(2) by (rule client_Get_world)
  show ?thesis
    by (simp add: reconcileService_update_build_failure[OF assms] w1 w2 record_call_def
        write_log_def new_calls_def)
qed

theorem update_build_failure_no_status_write_witness:
  "fst (reconcileService unlabelled_reconciler demo_key settled_world)
     = RequeueWithError (OtherError ''invalid image'')
   \<and> new_calls settled_world (snd (reconcileService unlabelled_reconciler demo_key settled_world))
     = [GetPersesCall demo_key, GetServiceCall demo_key]
   \<and> persesObjects (snd (reconcileService unlabelled_reconciler demo_key settled_world))
     = persesObjects settled_world"
proof -
  have h1: "getLatestPerses unlabelled_reconciler demo_key settled_world =
      (ContinueReconciling, demo_perses, record_call (GetPersesCall demo_key) settled_world)"
    by (rule demo_getLatestPerses)
       (simp_all add: unlabelled_reconciler_def demo_reconciler_def demo_server_def settled_world_def
           demo_world_def)
  have h2: "client_Get unlabelled_reconciler (perses_key demo_perses)
              (record_call (GetPersesCall demo_key) settled_world) =
      (Inr stored_service,
       record_call (GetServiceCall demo_key) (record_call (GetPersesCall demo_key) settled_world))"
    by (simp add: client_Get_def unlabelled_reconciler_def demo_reconciler_def demo_server_def
        demo_perses_key settled_world_def record_call_def)
  have h3: "createPersesService unlabelled_reconciler demo_perses = Inl (OtherError ''invalid image'')"
    by (rule unlabelled_build) (simp add: unlabelled_reconciler_def)
  show ?thesis
    using update_build_failure_no_status_write[OF h1 h2 h3]
    by (simp add: demo_perses_key)
qed

section \<open>Failure of the fetch\<close>

text \<open>
  C5. When fetching the Service fails with an error other than not-found, the invocation
  makes no further call (no create, no update, no status update), changes no stored
  object, and returns requeue-with-error with the fetch error.
\<close>

theorem fetch_failure_requeues:
  assumes "getLatestPerses r req w = (ContinueReconciling, p, w1)"
      and "client_Get r (perses_key p) w1 = (Inl err, w2)"
      and "\<not> IsNotFound err"
  shows "fst (reconcileService r req w) = RequeueWithError err
       \<and> calls (snd (reconcileService r req w)) =
           calls w @ [GetPersesCall req, GetServiceCall (perses_key p)]
       \<and> services (snd (reconcileService r req w)) = services w
       \<and> persesObjects (snd (reconcileService r req w)) = persesObjects w"
proof -
  have w1: "w1 = record_call (GetPersesCall req) w"
    using assms(1) by (rule getLatestPerses_world)
  have w2: "w2 = record_call (GetServiceCall (perses_key p)) w1"
    using assms(2) by (rule client_Get_world)
  show ?thesis
    by (simp add: reconcileService_read_failure[OF assms] w1 w2 record_call_def write_log_def)
qed


theorem fetch_failure_requeues_witness:
  "fst (reconcileService unreachable_reconciler demo_key settled_world)
     = RequeueWithError (OtherError ''connection refused'')
   \<and> calls (snd (reconcileService unreachable_reconciler demo_key settled_world))
     = [GetPersesCall demo_key, GetServiceCall demo_key]"
proof -
  have h1: "getLatestPerses unreachable_reconciler demo_key settled_world =
      (ContinueReconciling, demo_perses, record_call (GetPersesCall demo_key) settled_world)"
    by (rule demo_getLatestPerses)
       (simp_all add: unreachable_reconciler_def demo_server_def settled_world_def demo_world_def)
  have h2: "client_Get unreachable_reconciler (perses_key demo_perses)
              (record_call (GetPersesCall demo_key) settled_world) =
      (Inl (OtherError ''connection refused''),
       record_call (GetServiceCall demo_key) (record_call (GetPersesCall demo_key) settled_world))"
    by (simp add: client_Get_def unreachable_reconciler_def demo_perses_key)
  have h3: "\<not> IsNotFound (OtherError ''connection refused'')"
    by simp
  show ?thesis
    using fetch_failure_requeues[OF h1 h2 h3]
    by (simp add: demo_perses_key settled_world_def demo_world_def)
qed

section \<open>The built Service\<close>

text \<open>
  C7, as amended. When the build succeeds, every Service the invocation sends in a create
  or in the dry-run update has the parent's name and namespace and one owner reference, to
  the parent. The Service sent in the persisting update is the server's dry-run answer to
  the built Service against the stored one; it has the same name, namespace and owner
  reference when the server's answer keeps them.
\<close>

theorem submitted_services_keep_identity:
  assumes "getLatestPerses r req w = (ContinueReconciling, p, w1)"
      and "createPersesService r p = Inr ser"
      and "reconcileService r req w = (sig, w')"
  shows "\<forall>s. (CreateCall s \<in> set (new_calls w w') \<or> UpdateCall s True \<in> set (new_calls w w')
              \<longrightarrow> Name (svc_ObjectMeta s) = Name (p_ObjectMeta p)
                \<and> Namespace (svc_ObjectMeta s) = Namespace (p_ObjectMeta p)
                \<and> (\<exists>gvk. Scheme r = Some gvk
                     \<and> OwnerReferences (svc_ObjectMeta s) =
                         [\<lparr>or_apiVersion = fst gvk, or_kind = snd gvk,
                           or_name = Name (p_ObjectMeta p), or_uid = UID (p_ObjectMeta p),
                           or_controller = Some True, or_blockOwnerDeletion = Some True\<rparr>]))
           \<and> (UpdateCall s False \<in> set (new_calls w w')
              \<longrightarrow> (\<exists>old. services w (perses_key p) = Some old
                     \<and> admitUpdate (Client r) True old ser = Inr s)
                \<and> (keeps_identity (Client r)
                     \<longrightarrow> Name (svc_ObjectMeta s) = Name (p_ObjectMeta p)
                       \<and> Namespace (svc_ObjectMeta s) = Namespace (p_ObjectMeta p)
                       \<and> (\<exists>gvk. Scheme r = Some gvk
                            \<and> OwnerReferences (svc_ObjectMeta s) =
                                [\<lparr>or_apiVersion = fst gvk, or_kind = snd gvk,
                                  or_name = Name (p_ObjectMeta p),
                                  or_uid = UID (p_ObjectMeta p),
                                  or_controller = Some True,
                                  or_blockOwnerDeletion = Some True\<rparr>])))"
proof -
  note sub = reconcileService_submits[OF assms]
  have built: "Name (svc_ObjectMeta s) = Name (p_ObjectMeta p)
         \<and> Namespace (svc_ObjectMeta s) = Namespace (p_ObjectMeta p)
         \<and> (\<exists>gvk. Scheme r = Some gvk
              \<and> OwnerReferences (svc_ObjectMeta s) =
                  [\<lparr>or_apiVersion = fst gvk, or_kind = snd gvk,
                    or_name = Name (p_ObjectMeta p), or_uid = UID (p_ObjectMeta p),
                    or_controller = Some True, or_blockOwnerDeletion = Some True\<rparr>])"
    if same: "Name (svc_ObjectMeta s) = Name (svc_ObjectMeta ser)
      \<and> Namespace (svc_ObjectMeta s) = Namespace (svc_ObjectMeta ser)
      \<and> OwnerReferences (svc_ObjectMeta s) = OwnerReferences (svc_ObjectMeta ser)" for s
    using assms(2)
  proof (rule createPersesService_shape)
    fix ls gvk
    assume "Scheme r = Some gvk"
      "Name (svc_ObjectMeta ser) = Name (p_ObjectMeta p)"
      "Namespace (svc_ObjectMeta ser) = Namespace (p_ObjectMeta p)"
      "OwnerReferences (svc_ObjectMeta ser) = [controllerRef p gvk]"
    with same show ?thesis
      by (simp add: controllerRef_def)
  qed
  have sent_built: "Name (svc_ObjectMeta s) = Name (p_ObjectMeta p)
         \<and> Namespace (svc_ObjectMeta s) = Namespace (p_ObjectMeta p)
         \<and> (\<exists>gvk. Scheme r = Some gvk
              \<and> OwnerReferences (svc_ObjectMeta s) =
                  [\<lparr>or_apiVersion = fst gvk, or_kind = snd gvk,
                    or_name = Name (p_ObjectMeta p), or_uid = UID (p_ObjectMeta p),
                    or_controller = Some True, or_blockOwnerDeletion = Some True\<rparr>])"
    if "CreateCall s \<in> set (new_calls w w') \<or> UpdateCall s True \<in> set (new_calls w w')"
    for s
  proof -
    from that sub have "s = ser" by auto
    then show ?thesis by (intro built) simp
  qed
  have answer: "\<exists>old. services w (perses_key p) = Some old
        \<and> admitUpdate (Client r) True old ser = Inr s"
    if "UpdateCall s False \<in> set (new_calls w w')" for s
    using that sub by auto
  have kept: "Name (svc_ObjectMeta s) = Name (p_ObjectMeta p)
         \<and> Namespace (svc_ObjectMeta s) = Namespace (p_ObjectMeta p)
         \<and> (\<exists>gvk. Scheme r = Some gvk
              \<and> OwnerReferences (svc_ObjectMeta s) =
                  [\<lparr>or_apiVersion = fst gvk, or_kind = snd gvk,
                    or_name = Name (p_ObjectMeta p), or_uid = UID (p_ObjectMeta p),
                    or_controller = Some True, or_blockOwnerDeletion = Some True\<rparr>])"
    if "UpdateCall s False \<in> set (new_calls w w')" and "keeps_identity (Client r)" for s
  proof -
    from answer[OF that(1)] that(2)
    have "Name (svc_ObjectMeta s) = Name (svc_ObjectMeta ser)
      \<and> Namespace (svc_ObjectMeta s) = Namespace (svc_ObjectMeta ser)
      \<and> OwnerReferences (svc_ObjectMeta s) = OwnerReferences (svc_ObjectMeta ser)"
      unfolding keeps_identity_def by blast
    then show ?thesis by (rule built)
  qed
  show ?thesis
  proof (rule allI, rule conjI)
    fix s
    show "CreateCall s \<in> set (new_calls w w') \<or> UpdateCall s True \<in> set (new_calls w w')
              \<longrightarrow> Name (svc_ObjectMeta s) = Name (p_ObjectMeta p)
                \<and> Namespace (svc_ObjectMeta s) = Namespace (p_ObjectMeta p)
                \<and> (\<exists>gvk. Scheme r = Some gvk
                     \<and> OwnerReferences (svc_ObjectMeta s) =
                         [\<lparr>or_apiVersion = fst gvk, or_kind = snd gvk,
                           or_name = Name (p_ObjectMeta p), or_uid = UID (p_ObjectMeta p),
                           or_controller = Some True, or_blockOwnerDeletion = Some True\<rparr>])"
      by (rule impI) (rule sent_built)
  next
    fix s
    show "UpdateCall s False \<in> set (new_calls w w')
              \<longrightarrow> (\<exists>old. services w (perses_key p) = Some old
                     \<and> admitUpdate (Client r) True old ser = Inr s)
                \<and> (keeps_identity (Client r)
                     \<longrightarrow> Name (svc_ObjectMeta s) = Name (p_ObjectMeta p)
                       \<and> Namespace (svc_ObjectMeta s) = Namespace (p_ObjectMeta p)
                       \<and> (\<exists>gvk. Scheme r = Some gvk
                            \<and> OwnerReferences (svc_ObjectMeta s) =
                                [\<lparr>or_apiVersion = fst gvk, or_kind = snd gvk,
                                  or_name = Name (p_ObjectMeta p),
                                  or_uid = UID (p_ObjectMeta p),
                                  or_controller = Some True,
                                  or_blockOwnerDeletion = Some True\<rparr>]))"
    proof (rule impI, rule conjI)
      assume m: "UpdateCall s False \<in> set (new_calls w w')"
      show "\<exists>old. services w (perses_key p) = Some old
                     \<and> admitUpdate (Client r) True old ser = Inr s"
        by (rule answer[OF m])
      show "keeps_identity (Client r)
                     \<longrightarrow> Name (svc_ObjectMeta s) = Name (p_ObjectMeta p)
                       \<and> Namespace (svc_ObjectMeta s) = Namespace (p_ObjectMeta p)
                       \<and> (\<exists>gvk. Scheme r = Some gvk
                            \<and> OwnerReferences (svc_ObjectMeta s) =
                                [\<lparr>or_apiVersion = fst gvk, or_kind = snd gvk,
                                  or_name = Name (p_ObjectMeta p),
                                  or_uid = UID (p_ObjectMeta p),
                                  or_controller = Some True,
                                  or_blockOwnerDeletion = Some True\<rparr>])"
        by (rule impI) (rule kept[OF m])
    qed
  qed
qed

theorem submitted_services_keep_identity_witness:
  "\<exists>w'. reconcileService demo_reconciler demo_key drifted_world = (ContinueReconciling, w')
     \<and> UpdateCall demo_service True \<in> set (new_calls drifted_world w')
     \<and> UpdateCall stored_service False \<in> set (new_calls drifted_world w')
     \<and> Name (svc_ObjectMeta demo_service) = ''sample''
     \<and> Name (svc_ObjectMeta stored_service) = ''sample''
     \<and> Namespace (svc_ObjectMeta stored_service) = ''default''
     \<and> OwnerReferences (svc_ObjectMeta stored_service) =
          [\<lparr>or_apiVersion = ''perses.dev/v1alpha1'', or_kind = ''Perses'', or_name = ''sample'',
            or_uid = ''p-uid'', or_controller = Some True, or_blockOwnerDeletion = Some True\<rparr>]"
proof -
  from drifted_run obtain w' where
    run: "reconcileService demo_reconciler demo_key drifted_world = (ContinueReconciling, w')"
    and trace: "new_calls drifted_world w' =
          [GetPersesCall demo_key, GetServiceCall demo_key, UpdateCall demo_service True,
           UpdateCall stored_service False]"
    by blast
  have dry: "UpdateCall demo_service True \<in> set (new_calls drifted_world w')"
    and real: "UpdateCall stored_service False \<in> set (new_calls drifted_world w')"
    by (simp_all add: trace)
  have h1: "getLatestPerses demo_reconciler demo_key drifted_world =
      (ContinueReconciling, demo_perses, record_call (GetPersesCall demo_key) drifted_world)"
    by (rule demo_getLatestPerses)
       (simp_all add: demo_reconciler_def demo_server_def drifted_world_def demo_world_def)
  note inst = submitted_services_keep_identity[OF h1 demo_build run]
  from inst dry have first: "Name (svc_ObjectMeta demo_service) = Name (p_ObjectMeta demo_perses)"
    by blast
  from inst demo_keeps_identity real
  have "Name (svc_ObjectMeta stored_service) = Name (p_ObjectMeta demo_perses)
      \<and> Namespace (svc_ObjectMeta stored_service) = Namespace (p_ObjectMeta demo_perses)
      \<and> (\<exists>gvk. Scheme demo_reconciler = Some gvk
           \<and> OwnerReferences (svc_ObjectMeta stored_service) =
               [\<lparr>or_apiVersion = fst gvk, or_kind = snd gvk,
                 or_name = Name (p_ObjectMeta demo_perses),
                 or_uid = UID (p_ObjectMeta demo_perses),
                 or_controller = Some True, or_blockOwnerDeletion = Some True\<rparr>])"
    by blast
  with first have "Name (svc_ObjectMeta demo_service) = ''sample''
     \<and> Name (svc_ObjectMeta stored_service) = ''sample''
     \<and> Namespace (svc_ObjectMeta stored_service) = ''default''
     \<and> OwnerReferences (svc_ObjectMeta stored_service) =
          [\<lparr>or_apiVersion = ''perses.dev/v1alpha1'', or_kind = ''Perses'', or_name = ''sample'',
            or_uid = ''p-uid'', or_controller = Some True, or_blockOwnerDeletion = Some True\<rparr>]"
    by (auto simp: demo_reconciler_def demo_perses_def zero_objectMeta_def)
  with run dry real show ?thesis
    by blast
qed

text \<open>
  On the server that answers without owner references, the build succeeds and the
  persisting update sends a Service that has no owner reference.
\<close>

theorem persisting_update_on_stripping_server_unowned:
  "createPersesService stripping_reconciler demo_perses = Inr demo_service
   \<and> UpdateCall unowned_service False
       \<in> set (new_calls settled_world
                (snd (reconcileService stripping_reconciler demo_key settled_world)))
   \<and> OwnerReferences (svc_ObjectMeta unowned_service) = []"
proof -
  have build: "createPersesService stripping_reconciler demo_perses = Inr demo_service"
    by (simp add: stripping_reconciler_def createPersesService_Client demo_build)
  have pf: "getPersesFault (Client stripping_reconciler) demo_key = None"
    and sf: "getServiceFault (Client stripping_reconciler) (perses_key demo_perses) = None"
    and strip: "\<And>dryRun old. admitUpdate (Client stripping_reconciler) dryRun old demo_service
        = Inr unowned_service"
    and again: "\<And>dryRun old. admitUpdate (Client stripping_reconciler) dryRun old
        unowned_service = Inr unowned_service"
    by (simp_all add: stripping_reconciler_def stripping_server_def demo_server_def
        unowned_service_def)
  have obj: "persesObjects settled_world demo_key = Some demo_perses"
    and stored: "services settled_world (perses_key demo_perses) = Some stored_service"
    by (simp_all add: settled_world_def demo_world_def demo_perses_key)
  have differs: "\<not> DeepEqual stored_service unowned_service"
    by (simp add: DeepEqual_def DeepEqual_objectMeta_def stored_service_def unowned_service_def
        demo_service_def)
  have key: "service_key unowned_service = perses_key demo_perses"
    using demo_service_key by (simp add: service_key_def unowned_service_def demo_perses_key)
  note run = reconcileService_updates[OF pf obj sf stored build strip differs key again]
  show ?thesis
    using build run(2) by (simp add: unowned_service_def)
qed

text \<open>
  C8. The built Service carries the parent's configured annotations as they are when
  they are set, and an empty, non-nil map when the parent's metadata or its annotations
  are unset.
\<close>

theorem annotations_copied_or_empty:
  assumes "createPersesService r p = Inr ser"
  shows "(\<forall>md a. ps_Metadata (p_Spec p) = Some md \<and> md_Annotations md = Some a
            \<longrightarrow> Annotations (svc_ObjectMeta ser) = Some a)
       \<and> (ps_Metadata (p_Spec p) = None
            \<or> (\<exists>md. ps_Metadata (p_Spec p) = Some md \<and> md_Annotations md = None)
            \<longrightarrow> Annotations (svc_ObjectMeta ser) = Some Map.empty)"
  using assms
  by (auto simp: createPersesService_def SetControllerReference_def Let_def
      split: sum.splits option.splits)

theorem annotations_copied_or_empty_witness:
  "createPersesService demo_reconciler demo_perses = Inr demo_service
   \<and> Annotations (svc_ObjectMeta demo_service) = Some [''team'' \<mapsto> ''obs'']
   \<and> createPersesService demo_reconciler bare_perses = Inr bare_service
   \<and> Annotations (svc_ObjectMeta bare_service) = Some Map.empty"
  using annotations_copied_or_empty[OF demo_build] annotations_copied_or_empty[OF bare_build]
    demo_build bare_build
  by (simp add: demo_perses_def bare_perses_def)

text \<open>
  C9. Every Service that \<^verbatim>\<open>createPersesService\<close> builds has type ClusterIP, whatever the
  parent's spec.
\<close>

theorem type_is_ClusterIP:
  "createPersesService r p = Inr ser \<Longrightarrow> spec_Type (svc_Spec ser) = ServiceTypeClusterIP"
  by (auto simp: createPersesService_def SetControllerReference_def Let_def split: sum.splits option.splits)

theorem type_is_ClusterIP_witness:
  "createPersesService demo_reconciler demo_perses = Inr demo_service
   \<and> spec_Type (svc_Spec demo_service) = ServiceTypeClusterIP"
  using type_is_ClusterIP[OF demo_build] demo_build by simp


end
